theory Spec2Isabelle
  imports Complex_Main "HOL-Library.Word"
begin

section \<open>JavaScript values\<close>

text \<open>
  A JavaScript string is a sequence of UTF-16 code units; a regular expression without
  the \<open>u\<close> flag and \<open>String.prototype.length\<close> both work on code units.
  \<open>str\<close> embeds an ASCII literal of the source.
\<close>

type_synonym jschar = "16 word"
type_synonym jsstring = "jschar list"

definition str :: "string \<Rightarrow> jsstring" where
  "str s = map of_char s"

text \<open>
  The values that \<open>JSON.parse\<close> and the host natives hand to the code. A finite double
  is read as the rational it denotes; the code below only copies numbers and tests them
  for truthiness. An object is the list of its own properties, each key once.
\<close>

datatype jsval =
    Undefined
  | Null
  | Bool bool
  | Num rat
  | Str jsstring
  | Arr "jsval list"
  | Obj "(jsstring \<times> jsval) list"

fun truthy :: "jsval \<Rightarrow> bool" where
  "truthy Undefined = False"
| "truthy Null = False"
| "truthy (Bool b) = b"
| "truthy (Num n) = (n \<noteq> 0)"
| "truthy (Str s) = (s \<noteq> [])"
| "truthy (Arr xs) = True"
| "truthy (Obj kvs) = True"

text \<open>\<open>typeof v === 'object'\<close>: true of objects, arrays and \<open>null\<close>.\<close>

fun typeof_object :: "jsval \<Rightarrow> bool" where
  "typeof_object Null = True"
| "typeof_object (Arr xs) = True"
| "typeof_object (Obj kvs) = True"
| "typeof_object v = False"

text \<open>
  Console output and thrown errors. A template literal is kept as its parts: literal
  text, an interpolated string and an interpolated number.
\<close>

datatype part = T string | S jsstring | N int

abbreviation Q :: part where
  "Q \<equiv> T [CHR 0x27]"

datatype js_error = Error (message: "part list")

datatype level = error | warn | log | dir | verbose_dir

datatype arg = Msg "part list" | Err js_error | Data "(string \<times> jsval) list"

text \<open>
  The observable effects of a run, in order: console calls, the deletion of a file,
  and the calls into other modules.
\<close>

datatype event =
    Console level "arg list"
  | unlinkSync jsstring
  | addLocalIpAddress jsval
  | setConsoleEnvData jsstring jsstring bool bool
  | resetConvars

text \<open>
  The ways the process ends before a value is produced: \<open>process.exit(code)\<close>, and
  \<open>fatalError.Translator(code, message, error)\<close>.
\<close>

datatype halt =
    process_exit nat
  | fatalError_Translator nat string js_error

text \<open>
  Property read \<open>v.p\<close>. Reading a property of \<open>undefined\<close> or \<open>null\<close> throws a
  TypeError. None of the property names read below is defined on the prototype of a
  string, number, boolean or array, so on those the read gives \<open>undefined\<close>.
\<close>

fun getprop :: "jsval \<Rightarrow> string \<Rightarrow> js_error + jsval" where
  "getprop Undefined p =
     Inl (Error [T ''Cannot read properties of undefined (reading '', Q, T p, Q, T '')''])"
| "getprop Null p =
     Inl (Error [T ''Cannot read properties of null (reading '', Q, T p, Q, T '')''])"
| "getprop (Obj kvs) p = Inr (case map_of kvs (str p) of None \<Rightarrow> Undefined | Some v \<Rightarrow> v)"
| "getprop v p = Inr Undefined"

text \<open>
  \<open>String.prototype.trim\<close>: strips white space and line terminators from both ends.
\<close>

definition isWhiteSpace :: "jschar \<Rightarrow> bool" where
  "isWhiteSpace c \<longleftrightarrow>
     c \<in> {0x09, 0x0A, 0x0B, 0x0C, 0x0D, 0x20, 0xA0, 0x1680, 0x2028, 0x2029, 0x202F,
          0x205F, 0x3000, 0xFEFF} \<or> (0x2000 \<le> c \<and> c \<le> 0x200A)"

definition trim :: "jsstring \<Rightarrow> jsstring" where
  "trim s = rev (dropWhile isWhiteSpace (rev (dropWhile isWhiteSpace s)))"

definition endsWith :: "jsstring \<Rightarrow> jsstring \<Rightarrow> bool" where
  "endsWith s suffix \<longleftrightarrow> length suffix \<le> length s \<and> drop (length s - length suffix) s = suffix"

definition startsWith :: "jsstring \<Rightarrow> jsstring \<Rightarrow> bool" where
  "startsWith s prefix \<longleftrightarrow> take (length prefix) s = prefix"


section \<open>The Node.js runtime\<close>

text \<open>
  The library functions the code calls are parameters of the model: \<open>path.normalize\<close>,
  \<open>path.join\<close>, \<open>slash\<close>, the file system reads, \<open>JSON.parse\<close>. A read or a parse
  that throws returns the error on the left.
\<close>

record node =
  path_normalize :: "jsstring \<Rightarrow> jsstring"
  path_join :: "jsstring list \<Rightarrow> jsstring"
  slash :: "jsstring \<Rightarrow> jsstring"
  fs_existsSync :: "jsstring \<Rightarrow> bool"
  fs_readFileSync :: "jsstring \<Rightarrow> js_error + jsstring"
  fs_unlinkSync :: "jsstring \<Rightarrow> js_error option"
  JSON_parse :: "jsstring \<Rightarrow> js_error + jsval"


section \<open>Translator\<close>

text \<open>
  node-polyglot is a library, not part of the sources. An instance holds the table
  \<open>this.phrases\<close> that its constructor builds from the \<open>phrases\<close> option, read here as
  \<open>this.phrases[key]\<close>. A call \<open>polyglot.t(key, options)\<close> renders a phrase, or calls
  the \<open>onMissingKey\<close> callback with the key and returns what that returns, or throws.
\<close>

datatype Polyglot = Polyglot (phrases: "jsstring \<Rightarrow> jsval")

datatype polyglot_t = Rendered jsstring | MissingKey | Throws js_error

text \<open>
  The surroundings of the Translator at the moment of a call: the configured language
  \<open>txConfig.general.language\<close>, \<open>Intl.getCanonicalLocales(x)[0]\<close> (which throws a
  RangeError on a malformed tag), the table \<open>localeMap\<close> read as \<open>localeMap[lang]\<close>,
  the node-polyglot constructor \<open>new Polyglot({allowMissing: false, onMissingKey, phrases})\<close>
  as a function of the phrases, the interpolation \<open>transformPhrase(phrase, options)\<close> of
  node-polyglot, and \<open>txCore.fxRunner.resetConvars()\<close>.
\<close>

record runtime = node +
  txConfig_general_language :: jsstring
  Intl_getCanonicalLocales :: "jsstring \<Rightarrow> js_error + jsstring"
  localeMap :: "jsstring \<Rightarrow> jsval"
  Polyglot_new :: "jsval \<Rightarrow> js_error + Polyglot"
  transformPhrase :: "jsstring \<Rightarrow> jsval \<Rightarrow> js_error + jsstring"
  txCore_fxRunner_resetConvars :: "js_error option"

text \<open>
  \<open>Polyglot.prototype.t\<close> as the library documents and implements it, for an instance
  with an \<open>onMissingKey\<close> callback: with \<open>opts\<close> the options, or \<open>{}\<close> when they are
  \<open>null\<close> or \<open>undefined\<close>, the phrase is \<open>this.phrases[key]\<close> when that is a string,
  else the default \<open>opts._\<close> when that is a string, and it is interpolated; with neither,
  the callback is called.
\<close>

definition Polyglot_t :: "runtime \<Rightarrow> Polyglot \<Rightarrow> jsstring \<Rightarrow> jsval \<Rightarrow> polyglot_t" where
  "Polyglot_t w this key options =
     (let opts = (if options = Null \<or> options = Undefined then Obj [] else options);
          render = (\<lambda>phrase. case transformPhrase w phrase opts of
                                Inl e \<Rightarrow> Throws e
                              | Inr result \<Rightarrow> Rendered result)
      in case phrases this key of
           Str phrase \<Rightarrow> render phrase
         | v \<Rightarrow>
             (case getprop opts ''_'' of
                Inr (Str phrase) \<Rightarrow> render phrase
              | d \<Rightarrow> MissingKey))"

record Translator =
  canonical :: jsstring
  customLocalePath :: jsstring
  polyglot :: "Polyglot option"

text \<open>\<open>getLanguagePhrases(lang)\<close>: loads a language file or throws.\<close>

definition getLanguagePhrases :: "runtime \<Rightarrow> Translator \<Rightarrow> jsstring \<Rightarrow> js_error + jsval" where
  "getLanguagePhrases w this lang =
     (if typeof_object (localeMap w lang) then Inr (localeMap w lang)
      else if lang = str ''custom'' then
        (case (case fs_readFileSync w (customLocalePath this) of
                 Inl e \<Rightarrow> Inl e
               | Inr text \<Rightarrow> JSON_parse w text) of
           Inl e \<Rightarrow> Inl (Error ([T ''Failed to load '', Q, S (customLocalePath this), Q, T ''. (''] @
                               message e @ [T '')'']))
         | Inr v \<Rightarrow> Inr v)
      else Inl (Error [T ''Language '', Q, S lang, Q, T '' not found.'']))"

text \<open>The \<open>onMissingKey\<close> callback handed to Polyglot: one console error, the key back.\<close>

definition onMissingKey :: "jsstring \<Rightarrow> event list \<times> jsstring" where
  "onMissingKey key =
     ([Console error [Msg [T ''Missing key '', Q, S key, Q, T '' from translation file.''],
                      Msg [T ''Translator'']]], key)"

text \<open>\<open>language.replace(/_/g, '-')\<close>\<close>

definition replace_underscores :: "jsstring \<Rightarrow> jsstring" where
  "replace_underscores s = map (\<lambda>c. if c = 0x5F then 0x2D else c) s"

text \<open>
  \<open>setupTranslator(isFirstTime)\<close>. The first \<open>try\<close> computes \<open>canonical\<close>, with
  \<open>'en-GB'\<close> in its \<open>catch\<close>; the body of the second \<open>try\<close> loads the phrases and
  builds the Polyglot instance.
\<close>

definition setupTranslator_canonical :: "runtime \<Rightarrow> jsstring" where
  "setupTranslator_canonical w =
     (case Intl_getCanonicalLocales w (replace_underscores (txConfig_general_language w)) of
        Inl e \<Rightarrow> str ''en-GB''
      | Inr c \<Rightarrow> c)"

definition setupTranslator_polyglot :: "runtime \<Rightarrow> Translator \<Rightarrow> js_error + Polyglot" where
  "setupTranslator_polyglot w this =
     (case getLanguagePhrases w this (txConfig_general_language w) of
        Inl e \<Rightarrow> Inl e
      | Inr loaded \<Rightarrow>
          (case Polyglot_new w loaded of
             Inl e \<Rightarrow> Inl e
           | Inr p \<Rightarrow> Inr p))"

text \<open>
  The \<open>catch\<close> of the second \<open>try\<close> ends the process on the first load and prints
  the error on a later one.

  Modelled from the spec: \<open>fatalError\<close> (lib/fatalError is not among the sources) ends
  the whole process: a catalog-load failure during the very first configuration
  "is fatal for the whole process".
\<close>

definition setupTranslator :: "runtime \<Rightarrow> bool \<Rightarrow> Translator \<Rightarrow> event list \<times> (halt + Translator)" where
  "setupTranslator w isFirstTime this =
     (let this1 = this\<lparr>canonical := setupTranslator_canonical w\<rparr>
      in case setupTranslator_polyglot w this1 of
           Inr p \<Rightarrow> ([], Inr (this1\<lparr>polyglot := Some p\<rparr>))
         | Inl e \<Rightarrow>
             (if isFirstTime
              then ([], Inl (fatalError_Translator 0 ''Failed to load initial language file'' e))
              else ([Console dir [Err e]], Inr this1)))"

text \<open>The constructor: the field initialisers, then \<open>setupTranslator(true)\<close>.\<close>

definition Translator_new :: "runtime \<Rightarrow> jsstring \<Rightarrow> event list \<times> (halt + Translator)" where
  "Translator_new w txEnv_dataPath =
     setupTranslator w True
       \<lparr>canonical = str ''en-GB'',
        customLocalePath = path_join w [txEnv_dataPath, str ''locale.json''],
        polyglot = None\<rparr>"

definition refreshConfig :: "runtime \<Rightarrow> Translator \<Rightarrow> event list \<times> (halt + Translator)" where
  "refreshConfig w this =
     (case setupTranslator w False this of
        (evs, Inl h) \<Rightarrow> (evs, Inl h)
      | (evs, Inr this') \<Rightarrow>
          (evs @ [resetConvars] @
             (case txCore_fxRunner_resetConvars w of
                None \<Rightarrow> []
              | Some e \<Rightarrow> [Console verbose_dir [Err e]]),
           Inr this'))"

text \<open>\<open>t(key, options = {})\<close>: the events, and the thrown error or the returned string.\<close>

definition t :: "runtime \<Rightarrow> Translator \<Rightarrow> jsstring \<Rightarrow> jsval \<Rightarrow> event list \<times> (js_error + jsstring)" where
  "t w this key options =
     (case polyglot this of
        None \<Rightarrow> ([], Inl (Error [T ''polyglot not yet loaded'']))
      | Some p \<Rightarrow>
          (case Polyglot_t w p key (if options = Undefined then Obj [] else options) of
             Rendered s \<Rightarrow> ([], Inr s)
           | MissingKey \<Rightarrow> (case onMissingKey key of (evs, r) \<Rightarrow> (evs, Inr r))
           | Throws e \<Rightarrow>
               ([Console error [Msg [T ''Error performing a translation with key '', Q, S key, Q]]],
                Inr key)))"

text \<open>
  The Translator objects the rest of the program can hold: built by the constructor,
  then reconfigured any number of times, in any surroundings.
\<close>

inductive reachable :: "Translator \<Rightarrow> bool" where
  constructed: "Translator_new w dataPath = (evs, Inr this) \<Longrightarrow> reachable this"
| reconfigured: "reachable this \<Longrightarrow> setupTranslator w isFirstTime this = (evs, Inr this') \<Longrightarrow> reachable this'"
| refreshed: "reachable this \<Longrightarrow> refreshConfig w this = (evs, Inr this') \<Longrightarrow> reachable this'"


section \<open>globalData: the environment resolved at startup\<close>

text \<open>
  The module is a script that runs once, top to bottom. Each block that can call
  \<open>process.exit\<close> is a function from the host to the events it produces and either
  the way the process ended or the values the block defines.
\<close>

type_synonym 'a run = "event list \<times> (halt + 'a)"

definition run_bind :: "'a run \<Rightarrow> ('a \<Rightarrow> 'b run) \<Rightarrow> 'b run" where
  "run_bind m f =
     (case m of
        (evs, Inl h) \<Rightarrow> (evs, Inl h)
      | (evs, Inr a) \<Rightarrow> (case f a of (evs', r) \<Rightarrow> (evs @ evs', r)))"

text \<open>
  The result of \<open>parseFxserverVersion\<close> (lib/fxserver/fxsVersionParser) and of
  \<open>parseTxDevEnv\<close> (shared/txDevEnv), whose code is not among the sources: both are
  parameters of the model. The record scheme of \<open>TxDevEnvType\<close> carries the fields the
  script never reads.
\<close>

record fxsVerParsed =
  valid :: bool
  build :: int
  branch :: jsstring

record TxDevEnvType =
  ENABLED :: bool
  SRC_PATH :: "jsstring option"
  VITE_URL :: "jsstring option"
  VERBOSE :: bool

text \<open>
  The host: the operating system, the natives of FXServer (\<open>GetConvar\<close>,
  \<open>GetCurrentResourceName\<close>, \<open>GetResourceMetadata\<close>, \<open>GetResourcePath\<close>), the two
  parsers and the environment variable \<open>TXADMIN_ENABLE\<close>.
\<close>

record 'x host = node +
  os_type :: jsstring
  GetConvar :: "jsstring \<Rightarrow> jsstring \<Rightarrow> jsstring"
  GetCurrentResourceName :: jsstring
  GetResourceMetadata :: "jsstring \<Rightarrow> jsstring \<Rightarrow> nat \<Rightarrow> jsval"
  GetResourcePath :: "jsstring \<Rightarrow> jsval"
  parseFxserverVersion :: "jsstring option \<Rightarrow> fxsVerParsed"
  parseTxDevEnv :: "'x TxDevEnvType_scheme"
  process_env_TXADMIN_ENABLE :: "jsstring option"

subsection \<open>Helpers\<close>

definition cleanPath :: "'x host \<Rightarrow> jsstring \<Rightarrow> jsstring" where
  "cleanPath h x = slash h (path_normalize h x)"

text \<open>\<open>getConvarString\<close> returns \<open>false\<close> (here \<open>None\<close>) or the trimmed string.\<close>

definition getConvarString :: "'x host \<Rightarrow> jsstring \<Rightarrow> jsstring option" where
  "getConvarString h convarName =
     (let cvar = trim (GetConvar h convarName (str ''false''))
      in if cvar = str ''false'' then None else Some cvar)"

text \<open>\<open>!x\<close> on a value that is \<open>false\<close>, \<open>undefined\<close> or a string.\<close>

fun falsy :: "jsstring option \<Rightarrow> bool" where
  "falsy None = True"
| "falsy (Some s) = (s = [])"

text \<open>
  Case-insensitive matching without the \<open>u\<close> flag compares \<open>Canonicalize(ch)\<close>, the
  upper case of a code unit, except that a code unit from 128 up never canonicalizes
  below 128. Every pattern below is ASCII, so only the ASCII part of the mapping matters.
\<close>

definition canonicalize :: "jschar \<Rightarrow> jschar" where
  "canonicalize c = (if 0x61 \<le> c \<and> c \<le> 0x7A then c - 0x20 else c)"

definition isDigit :: "jschar \<Rightarrow> bool" where
  "isDigit c \<longleftrightarrow> 0x30 \<le> c \<and> c \<le> 0x39"

text \<open>
  \<open>/Temp[\\/]+Rar\$/i\<close>. No separator starts \<open>Rar$\<close>, so the greedy \<open>[\\/]+\<close> takes
  every separator that follows \<open>Temp\<close>.
\<close>

definition isSeparator :: "jschar \<Rightarrow> bool" where
  "isSeparator c \<longleftrightarrow> c = 0x5C \<or> c = 0x2F"

definition imatch :: "string \<Rightarrow> jsstring \<Rightarrow> bool" where
  "imatch literal s \<longleftrightarrow>
     map canonicalize (take (length literal) s) = map canonicalize (str literal)"

definition tempRar_at :: "jsstring \<Rightarrow> bool" where
  "tempRar_at s \<longleftrightarrow>
     imatch ''Temp'' s \<and>
     (let rest = drop 4 s
      in rest \<noteq> [] \<and> isSeparator (hd rest) \<and> imatch ''Rar$'' (dropWhile isSeparator rest))"

fun tempRar_test :: "jsstring \<Rightarrow> bool" where
  "tempRar_test [] = False"
| "tempRar_test (c # cs) = (tempRar_at (c # cs) \<or> tempRar_test cs)"

text \<open>\<open>nonASCIIRegex = /[^\x00-\x80]+/\<close>: some code unit lies outside 0x00..0x80.\<close>

definition nonASCIIRegex_test :: "jsstring \<Rightarrow> bool" where
  "nonASCIIRegex_test s \<longleftrightarrow> list_ex (\<lambda>c. \<not> (0x00 \<le> c \<and> c \<le> 0x80)) s"

text \<open>
  \<open>.replace(/[^a-z0-9._-]/gi, '')\<close> removes every code unit outside the class, whose
  members canonicalize to \<open>A-Z\<close>, \<open>0-9\<close>, \<open>.\<close>, \<open>_\<close> and \<open>-\<close>.
\<close>

definition profile_class :: "jschar \<Rightarrow> bool" where
  "profile_class c \<longleftrightarrow>
     (let u = canonicalize c
      in (0x41 \<le> u \<and> u \<le> 0x5A) \<or> (0x30 \<le> u \<and> u \<le> 0x39) \<or> u = 0x2E \<or> u = 0x5F \<or> u = 0x2D)"

text \<open>
  \<open>/^\d+$/\<close>, \<open>parseInt\<close> of a string of digits, and the dotted quad. \<open>parseInt\<close>
  is the number the digits denote: that is what JavaScript returns up to \<open>2^53\<close>; a
  longer string of digits it rounds to a double, which is not followed here.
\<close>

definition digits_test :: "jsstring \<Rightarrow> bool" where
  "digits_test s \<longleftrightarrow> s \<noteq> [] \<and> list_all isDigit s"

definition parseInt :: "jsstring \<Rightarrow> nat" where
  "parseInt s = foldl (\<lambda>n c. 10 * n + unat (c - 0x30)) 0 s"

fun split_dots :: "jsstring \<Rightarrow> jsstring list" where
  "split_dots [] = [[]]"
| "split_dots (c # cs) =
     (if c = 0x2E then [] # split_dots cs
      else (case split_dots cs of [] \<Rightarrow> [[c]] | g # gs \<Rightarrow> (c # g) # gs))"

definition dotted_quad_test :: "jsstring \<Rightarrow> bool" where
  "dotted_quad_test s \<longleftrightarrow>
     length (split_dots s) = 4 \<and>
     list_all (\<lambda>g. 1 \<le> length g \<and> length g \<le> 3 \<and> list_all isDigit g) (split_dots s)"

subsection \<open>txAdmin Env\<close>

definition resolve_osType :: "'x host \<Rightarrow> (jsstring \<times> bool) run" where
  "resolve_osType h =
     (if os_type h = str ''Windows_NT'' then ([], Inr (str ''windows'', True))
      else if os_type h = str ''Linux'' then ([], Inr (str ''linux'', False))
      else ([Console error [Msg [T ''OS type not supported: '', S (os_type h)]]],
            Inl (process_exit 100)))"

definition minFXServerVersion :: int where
  "minFXServerVersion = 5894"

definition resolve_fxServerVersion :: "'x host \<Rightarrow> int run" where
  "resolve_fxServerVersion h =
     (let fxsVerParsed = parseFxserverVersion h (getConvarString h (str ''version''));
          fxServerVersion = (if valid fxsVerParsed then build fxsVerParsed else 99999)
      in if \<not> valid fxsVerParsed then
           ([Console error [Msg [T ''It looks like you are running a custom build of fxserver.'']],
             Console error [Msg [T ''And because of that, there is no guarantee that txAdmin will work properly.'']]],
            Inr fxServerVersion)
         else if build fxsVerParsed < minFXServerVersion then
           ([Console error [Msg [T ''This version of FXServer is too outdated and NOT compatible with txAdmin, please update to artifact/build '',
                                 N minFXServerVersion, T '' or newer!'']]],
            Inl (process_exit 102))
         else if branch fxsVerParsed \<noteq> str ''master'' then
           ([Console warn [Msg [T ''You are running a custom branch of FXServer: '', S (branch fxsVerParsed)]]],
            Inr fxServerVersion)
         else ([], Inr fxServerVersion))"

definition resolve_txAdminVersion :: "'x host \<Rightarrow> jsstring run" where
  "resolve_txAdminVersion h =
     (case GetResourceMetadata h (GetCurrentResourceName h) (str ''version'') 0 of
        Str txAdminVersion \<Rightarrow>
          (if txAdminVersion = str ''null''
           then ([Console error [Msg [T ''txAdmin version not set or in the wrong format'']]],
                 Inl (process_exit 103))
           else ([], Inr txAdminVersion))
      | v \<Rightarrow> ([Console error [Msg [T ''txAdmin version not set or in the wrong format'']]],
              Inl (process_exit 103)))"

definition resolve_txAdminResourcePath :: "'x host \<Rightarrow> jsstring run" where
  "resolve_txAdminResourcePath h =
     (case GetResourcePath h (GetCurrentResourceName h) of
        Str txAdminResourcePathConvar \<Rightarrow>
          (if txAdminResourcePathConvar = str ''null''
           then ([Console error [Msg [T ''Could not resolve txAdmin resource path'']]],
                 Inl (process_exit 104))
           else ([], Inr (cleanPath h txAdminResourcePathConvar)))
      | v \<Rightarrow> ([Console error [Msg [T ''Could not resolve txAdmin resource path'']]],
              Inl (process_exit 104)))"

definition resolve_fxServerPath :: "'x host \<Rightarrow> jsstring run" where
  "resolve_fxServerPath h =
     (let citizenRootConvar = getConvarString h (str ''citizen_root'')
      in if falsy citizenRootConvar
         then ([Console error [Msg [T ''citizen_root convar not set'']]], Inl (process_exit 105))
         else ([], Inr (cleanPath h (the citizenRootConvar))))"

definition check_winrar :: "bool \<Rightarrow> jsstring \<Rightarrow> unit run" where
  "check_winrar isWindows fxServerPath =
     (if isWindows \<and> tempRar_test fxServerPath
      then ([Console error [Msg [T ''It looks like you ran FXServer inside WinRAR without extracting it first.'']],
             Console error [Msg [T ''Please extract the server files to a proper folder before running it.'']]],
            Inl (process_exit 112))
      else ([], Inr ()))"

definition resolve_dataPath :: "'x host \<Rightarrow> bool \<Rightarrow> jsstring \<Rightarrow> jsstring" where
  "resolve_dataPath h isWindows fxServerPath =
     (let txDataPathConvar = getConvarString h (str ''txDataPath'')
      in if falsy txDataPathConvar
         then (let dataPathSuffix = (if isWindows then str ''..'' else str ''../../../'')
               in cleanPath h (path_join h [fxServerPath, dataPathSuffix, str ''txData'']))
         else cleanPath h (the txDataPathConvar))"

definition nonASCII_examples :: jsstring where
  "nonASCII_examples =
     [0xE7, 0xE2, 0xFD, 0xE5, 0x2C, 0x20, 0x3C1, 0x3AD, 0x3B8, 0x2C, 0x20, 0xF1, 0xE4, 0xE9,
      0x2C, 0x20, 0x113, 0x13C, 0xE6, 0x2C, 0x20, 0x433, 0x43B, 0x436, 0x2C, 0x20, 0xE40,
      0xE0B, 0xE34, 0xE23, 0xE4C, 0x2C, 0x20, 0x8B66, 0x544A, 0x2E]"

definition check_nonASCII :: "int \<Rightarrow> jsstring \<Rightarrow> jsstring \<Rightarrow> unit run" where
  "check_nonASCII fxServerVersion fxServerPath dataPath =
     (if nonASCIIRegex_test fxServerPath \<or> nonASCIIRegex_test dataPath
      then ([Console error [Msg [T ''Due to environmental restrictions, your paths CANNOT contain non-ASCII characters.'']],
             Console error [Msg [T ''Example of non-ASCII characters: '', S nonASCII_examples]],
             Console error [Msg [T ''Please make sure FXServer is not in a path contaning those characters.'']],
             Console error [Msg [T ''If on windows, we suggest you moving the artifact to '', T [CHR 0x22],
                                 T ''C:/fivemserver/'', N fxServerVersion, T ''/'', T [CHR 0x22], T ''.'']],
             Console log [Msg [T ''FXServer path: '', S fxServerPath]],
             Console log [Msg [T ''txData path: '', S dataPath]]],
            Inl (process_exit 107))
      else ([], Inr ()))"

definition resolve_profile :: "'x host \<Rightarrow> jsstring \<Rightarrow> (jsstring \<times> jsstring) run" where
  "resolve_profile h dataPath =
     (let profile = trim (filter profile_class (GetConvar h (str ''serverProfile'') (str ''default'')))
      in if endsWith profile (str ''.base'')
         then ([Console error [Msg [T ''Looks like the folder named '', Q, S profile, Q,
                                    T '' is actually a deployed base instead of a profile.'']]],
               Inl (process_exit 113))
         else if length profile = 0
         then ([Console error [Msg [T ''Invalid server profile name. Are you using Google Translator on the instructions page? Make sure there are no additional spaces in your command.'']]],
               Inl (process_exit 114))
         else ([], Inr (profile, cleanPath h (path_join h [dataPath, profile]))))"

record txEnv =
  osType :: jsstring
  isWindows :: bool
  fxServerVersion :: int
  txAdminVersion :: jsstring
  txAdminResourcePath :: jsstring
  fxServerPath :: jsstring
  dataPath :: jsstring
  profile :: jsstring
  profilePath :: jsstring

subsection \<open>txAdmin Dev Env\<close>

definition resolve_txDevEnv :: "'x host \<Rightarrow> 'x TxDevEnvType_scheme run" where
  "resolve_txDevEnv h =
     (let txDevEnvSrc = parseTxDevEnv h
      in if ENABLED txDevEnvSrc then
           (if falsy (SRC_PATH txDevEnvSrc) \<or> falsy (VITE_URL txDevEnvSrc)
            then ([Console log [Msg [T ''Starting txAdmin in DEV mode.'']],
                   Console error [Msg [T ''Missing TXDEV_VITE_URL and/or TXDEV_SRC_PATH env variables.'']]],
                  Inl (process_exit 108))
            else ([Console log [Msg [T ''Starting txAdmin in DEV mode.'']]], Inr txDevEnvSrc))
         else ([], Inr (txDevEnvSrc\<lparr>SRC_PATH := None, VITE_URL := None\<rparr>)))"


subsection \<open>Host type check\<close>

record masterAccount =
  name :: jsstring
  password_hash :: jsstring

text \<open>
  The exported \<open>convars\<close>. What the ZAP file supplies is copied as it was parsed, so
  those fields hold any value; \<open>false\<close> is \<open>Bool False\<close>, and for
  \<open>defaultMasterAccount\<close> it is \<open>None\<close>.
\<close>

record convars =
  isPterodactyl :: bool
  isZapHosting :: bool
  forceInterface :: jsval
  forceFXServerPort :: jsval
  txAdminPort :: jsval
  loginPageLogo :: jsval
  defaultMasterAccount :: "masterAccount option"
  deployerDefaults :: jsval

definition try_bind :: "js_error + 'a \<Rightarrow> ('a \<Rightarrow> js_error + 'b) \<Rightarrow> js_error + 'b" where
  "try_bind m f = (case m of Inl e \<Rightarrow> Inl e | Inr a \<Rightarrow> f a)"

text \<open>The \<open>if (zapCfgData.customer)\<close> block inside the \<open>try\<close>.\<close>

definition zap_customer :: "jsval \<Rightarrow> js_error + masterAccount option" where
  "zap_customer zapCfgData =
     try_bind (getprop zapCfgData ''customer'') (\<lambda>customer.
       if truthy customer then
         try_bind (getprop customer ''name'') (\<lambda>customer_name.
           case customer_name of
             Str n \<Rightarrow>
               if length n < 3 then Inl (Error [T ''customer.name too short.''])
               else
                 try_bind (getprop customer ''password_hash'') (\<lambda>customer_password_hash.
                   case customer_password_hash of
                     Str ph \<Rightarrow>
                       if \<not> startsWith ph (str ''$2y$'')
                       then Inl (Error [T ''customer.password_hash is not a bcrypt hash.''])
                       else Inr (Some \<lparr>name = n, password_hash = ph\<rparr>)
                   | v \<Rightarrow> Inl (Error [T ''customer.password_hash is not a string.'']))
           | v \<Rightarrow> Inl (Error [T ''customer.name is not a string.'']))
       else Inr None)"

text \<open>
  The assignment of \<open>deployerDefaults\<close>: seven reads of \<open>zapCfgData.defaults.x\<close>, in
  the order of the object literal.
\<close>

definition zap_defaults :: "jsval \<Rightarrow> js_error + jsval" where
  "zap_defaults zapCfgData =
     try_bind (getprop zapCfgData ''defaults'') (\<lambda>defaults.
     try_bind (getprop defaults ''license'') (\<lambda>license.
     try_bind (getprop defaults ''maxClients'') (\<lambda>maxClients.
     try_bind (getprop defaults ''mysqlHost'') (\<lambda>mysqlHost.
     try_bind (getprop defaults ''mysqlPort'') (\<lambda>mysqlPort.
     try_bind (getprop defaults ''mysqlUser'') (\<lambda>mysqlUser.
     try_bind (getprop defaults ''mysqlPassword'') (\<lambda>mysqlPassword.
     try_bind (getprop defaults ''mysqlDatabase'') (\<lambda>mysqlDatabase.
       Inr (Obj [(str ''license'', license), (str ''maxClients'', maxClients),
                 (str ''mysqlHost'', mysqlHost), (str ''mysqlPort'', mysqlPort),
                 (str ''mysqlUser'', mysqlUser), (str ''mysqlPassword'', mysqlPassword),
                 (str ''mysqlDatabase'', mysqlDatabase)])))))))))"

text \<open>
  The body of the \<open>try\<close> up to the customer block: the parsed file, the fields copied
  from it, the deployer defaults and the master account.
\<close>

definition zap_parse :: "'x host \<Rightarrow> jsstring \<Rightarrow> bool \<Rightarrow> js_error + convars" where
  "zap_parse h zapCfgFile_v isPterodactyl_v =
     try_bind (fs_readFileSync h zapCfgFile_v) (\<lambda>text.
     try_bind (JSON_parse h text) (\<lambda>zapCfgData.
     try_bind (getprop zapCfgData ''interface'') (\<lambda>forceInterface_v.
     try_bind (getprop zapCfgData ''fxServerPort'') (\<lambda>forceFXServerPort_v.
     try_bind (getprop zapCfgData ''txAdminPort'') (\<lambda>txAdminPort_v.
     try_bind (getprop zapCfgData ''loginPageLogo'') (\<lambda>loginPageLogo_v.
     try_bind (zap_defaults zapCfgData) (\<lambda>deployerDefaults_v.
     try_bind (zap_customer zapCfgData) (\<lambda>defaultMasterAccount_v.
       Inr \<lparr>isPterodactyl = isPterodactyl_v,
            isZapHosting = \<not> isPterodactyl_v,
            forceInterface = forceInterface_v,
            forceFXServerPort = forceFXServerPort_v,
            txAdminPort = txAdminPort_v,
            loginPageLogo = loginPageLogo_v,
            defaultMasterAccount = defaultMasterAccount_v,
            deployerDefaults = deployerDefaults_v\<rparr>))))))))"

text \<open>The \<open>catch\<close>: the message of the error on the console, then \<open>process.exit(109)\<close>.\<close>

definition zap_catch :: "js_error \<Rightarrow> convars run" where
  "zap_catch e =
     ([Console error [Msg (T ''Failed to load with ZAP-Hosting configuration error: '' # message e)]],
      Inl (process_exit 109))"

text \<open>
  The last statement of the \<open>try\<close>: \<open>if (!_txDevEnv.ENABLED) fs.unlinkSync(zapCfgFile)\<close>.
  The event records the call; when the call throws, the \<open>catch\<close> runs.
\<close>

definition zap_unlink :: "'x host \<Rightarrow> jsstring \<Rightarrow> bool \<Rightarrow> convars \<Rightarrow> convars run" where
  "zap_unlink h zapCfgFile_v txDevEnv_ENABLED cv =
     (if \<not> txDevEnv_ENABLED then
        run_bind ([unlinkSync zapCfgFile_v], Inr ()) (\<lambda>_.
          case fs_unlinkSync h zapCfgFile_v of
            Some e \<Rightarrow> zap_catch e
          | None \<Rightarrow> ([], Inr cv))
      else ([], Inr cv))"

text \<open>
  A run has deleted a file when it called \<open>fs.unlinkSync\<close> on it and the call returned.
\<close>

definition file_deleted :: "'x host \<Rightarrow> event list \<Rightarrow> jsstring \<Rightarrow> bool" where
  "file_deleted h evs file \<longleftrightarrow> unlinkSync file \<in> set evs \<and> fs_unlinkSync h file = None"

text \<open>The \<open>else\<close> branch: no ZAP file, the port and the interface come from convars.\<close>

definition resolve_standard :: "'x host \<Rightarrow> bool \<Rightarrow> convars run" where
  "resolve_standard h isPterodactyl_v =
     (let txAdminPortConvar = trim (GetConvar h (str ''txAdminPort'') (str ''40120''))
      in if \<not> digits_test txAdminPortConvar
         then ([Console error [Msg [T ''txAdminPort is not valid.'']]], Inl (process_exit 110))
         else
           (let txAdminInterfaceConvar = getConvarString h (str ''txAdminInterface'')
            in if \<not> falsy txAdminInterfaceConvar \<and> \<not> dotted_quad_test (the txAdminInterfaceConvar)
               then ([Console error [Msg [T ''txAdminInterface is not valid.'']]], Inl (process_exit 111))
               else ([], Inr \<lparr>isPterodactyl = isPterodactyl_v,
                               isZapHosting = False,
                               forceInterface = (if falsy txAdminInterfaceConvar then Bool False
                                                 else Str (the txAdminInterfaceConvar)),
                               forceFXServerPort = Bool False,
                               txAdminPort = Num (of_nat (parseInt txAdminPortConvar)),
                               loginPageLogo = Bool False,
                               defaultMasterAccount = None,
                               deployerDefaults = Bool False\<rparr>)))"

definition zapCfgFile :: "'x host \<Rightarrow> jsstring \<Rightarrow> jsstring" where
  "zapCfgFile h dataPath_v = path_join h [dataPath_v, str ''txAdminZapConfig.json'']"

definition resolve_convars :: "'x host \<Rightarrow> bool \<Rightarrow> jsstring \<Rightarrow> bool \<Rightarrow> convars run" where
  "resolve_convars h isWindows_v dataPath_v txDevEnv_ENABLED =
     (let isPterodactyl_v = (\<not> isWindows_v \<and> process_env_TXADMIN_ENABLE h = Some (str ''1''))
      in if fs_existsSync h (zapCfgFile h dataPath_v) then
           run_bind ([Console log [Msg [T ''Loading ZAP-Hosting configuration file.'']]], Inr ()) (\<lambda>_.
             case zap_parse h (zapCfgFile h dataPath_v) isPterodactyl_v of
               Inl e \<Rightarrow> zap_catch e
             | Inr cv \<Rightarrow> zap_unlink h (zapCfgFile h dataPath_v) txDevEnv_ENABLED cv)
         else resolve_standard h isPterodactyl_v)"

subsection \<open>Exports\<close>

record 'x exports =
  txDevEnv :: "'x TxDevEnvType_scheme"
  txEnv :: txEnv
  convars :: convars

text \<open>
  What follows the host type check: the forced interface is registered as a local
  address, the verbose dump, \<open>setConsoleEnvData\<close>, and the three frozen exports.
\<close>

definition publish :: "txEnv \<Rightarrow> 'x TxDevEnvType_scheme \<Rightarrow> convars \<Rightarrow> 'x exports run" where
  "publish env dev cv =
     ((if truthy (forceInterface cv) then [addLocalIpAddress (forceInterface cv)] else []) @
      (if VERBOSE dev
       then [Console dir [Data [(''isPterodactyl'', Bool (isPterodactyl cv)),
                                (''isZapHosting'', Bool (isZapHosting cv)),
                                (''forceInterface'', forceInterface cv),
                                (''forceFXServerPort'', forceFXServerPort cv),
                                (''txAdminPort'', txAdminPort cv),
                                (''loginPageLogo'', loginPageLogo cv),
                                (''deployerDefaults'', deployerDefaults cv)]]]
       else []) @
      [setConsoleEnvData (txAdminVersion env) (txAdminResourcePath env) (ENABLED dev) (VERBOSE dev)],
      Inr \<lparr>txDevEnv = dev, txEnv = env, convars = cv\<rparr>)"

text \<open>The blocks of the first half, in the order of the file: they make up \<open>txEnv\<close>.\<close>

definition resolve_txEnv :: "'x host \<Rightarrow> txEnv run" where
  "resolve_txEnv h =
     run_bind (resolve_osType h) (\<lambda>(osType_v, isWindows_v).
     run_bind (resolve_fxServerVersion h) (\<lambda>fxServerVersion_v.
     run_bind (resolve_txAdminVersion h) (\<lambda>txAdminVersion_v.
     run_bind (resolve_txAdminResourcePath h) (\<lambda>txAdminResourcePath_v.
     run_bind (resolve_fxServerPath h) (\<lambda>fxServerPath_v.
     run_bind (check_winrar isWindows_v fxServerPath_v) (\<lambda>_.
     run_bind (check_nonASCII fxServerVersion_v fxServerPath_v
                 (resolve_dataPath h isWindows_v fxServerPath_v)) (\<lambda>_.
     run_bind (resolve_profile h (resolve_dataPath h isWindows_v fxServerPath_v))
       (\<lambda>(profile_v, profilePath_v).
         ([], Inr \<lparr>osType = osType_v,
                   isWindows = isWindows_v,
                   fxServerVersion = fxServerVersion_v,
                   txAdminVersion = txAdminVersion_v,
                   txAdminResourcePath = txAdminResourcePath_v,
                   fxServerPath = fxServerPath_v,
                   dataPath = resolve_dataPath h isWindows_v fxServerPath_v,
                   profile = profile_v,
                   profilePath = profilePath_v\<rparr>)))))))))"

text \<open>The whole module.\<close>

definition globalData :: "'x host \<Rightarrow> 'x exports run" where
  "globalData h =
     run_bind (resolve_txEnv h) (\<lambda>env.
     run_bind (resolve_txDevEnv h) (\<lambda>dev.
     run_bind (resolve_convars h (isWindows env) (dataPath env) (ENABLED dev)) (\<lambda>cv.
       publish env dev cv)))"


section \<open>Concrete surroundings\<close>

text \<open>
  A small runtime for evaluating the Translator: one built-in language \<open>en\<close> with one
  phrase, a Polyglot constructor for a flat object of phrases, an interpolation for
  phrases without tokens, no readable custom file.
\<close>

definition flat_phrases :: "jsval \<Rightarrow> jsstring \<Rightarrow> jsval" where
  "flat_phrases loaded key =
     (case loaded of
        Obj kvs \<Rightarrow> (case map_of kvs key of Some v \<Rightarrow> v | None \<Rightarrow> Undefined)
      | v \<Rightarrow> Undefined)"

definition english :: jsval where
  "english = Obj [(str ''hello'', Str (str ''Hello''))]"

definition polyglot_en :: Polyglot where
  "polyglot_en = Polyglot (flat_phrases english)"

definition runtime_en :: runtime where
  "runtime_en =
     \<lparr>path_normalize = id, path_join = concat, slash = id,
      fs_existsSync = (\<lambda>p. False),
      fs_readFileSync = (\<lambda>p. Inl (Error [T ''ENOENT: no such file or directory''])),
      fs_unlinkSync = (\<lambda>p. None),
      JSON_parse = (\<lambda>s. Inl (Error [T ''Unexpected end of JSON input''])),
      txConfig_general_language = str ''en'',
      Intl_getCanonicalLocales = Inr,
      localeMap = (\<lambda>lang. if lang = str ''en'' then english else Undefined),
      Polyglot_new = (\<lambda>loaded. Inr (Polyglot (flat_phrases loaded))),
      transformPhrase = (\<lambda>phrase opts. Inr phrase),
      txCore_fxRunner_resetConvars = None\<rparr>"

text \<open>The same, switched to the custom language with a file that is not valid JSON.\<close>

definition runtime_custom_invalid :: runtime where
  "runtime_custom_invalid =
     runtime_en\<lparr>txConfig_general_language := str ''custom'',
                fs_readFileSync := (\<lambda>p. Inr (str ''{''))\<rparr>"

definition translator_init :: Translator where
  "translator_init =
     \<lparr>canonical = str ''en-GB'', customLocalePath = str ''/txData/locale.json'', polyglot = None\<rparr>"

definition translator_en :: Translator where
  "translator_en =
     \<lparr>canonical = str ''en'', customLocalePath = str ''/txData/locale.json'',
      polyglot = Some polyglot_en\<rparr>"

definition custom_invalid_error :: js_error where
  "custom_invalid_error =
     Error [T ''Failed to load '', Q, S (str ''/txData/locale.json''), Q, T ''. ('',
            T ''Unexpected end of JSON input'', T '')'']"


text \<open>
  A Linux host for evaluating the script: a standard build of FXServer, the data path
  given by convar, no ZAP file, no dev environment.
\<close>

fun join_slash :: "jsstring list \<Rightarrow> jsstring" where
  "join_slash [] = []"
| "join_slash [p] = p"
| "join_slash (p # ps) = p @ 0x2F # join_slash ps"

definition host_linux :: "unit host" where
  "host_linux =
     \<lparr>path_normalize = id, path_join = join_slash, slash = id,
      fs_existsSync = (\<lambda>p. False),
      fs_readFileSync = (\<lambda>p. Inl (Error [T ''ENOENT: no such file or directory''])),
      fs_unlinkSync = (\<lambda>p. None),
      JSON_parse = (\<lambda>s. Inl (Error [T ''Unexpected end of JSON input''])),
      os_type = str ''Linux'',
      GetConvar = (\<lambda>convarName default.
         if convarName = str ''version'' then str ''FXServer-master v1.0.0.7290 linux''
         else if convarName = str ''citizen_root'' then str ''/fx/citizen''
         else if convarName = str ''txDataPath'' then str ''/txData''
         else default),
      GetCurrentResourceName = str ''monitor'',
      GetResourceMetadata = (\<lambda>resource key index. Str (str ''8.0.1'')),
      GetResourcePath = (\<lambda>resource. Str (str ''/fx/citizen/monitor'')),
      parseFxserverVersion = (\<lambda>version. \<lparr>valid = True, build = 7290, branch = str ''master''\<rparr>),
      parseTxDevEnv = \<lparr>ENABLED = False, SRC_PATH = None, VITE_URL = None, VERBOSE = False\<rparr>,
      process_env_TXADMIN_ENABLE = None\<rparr>"

definition txEnv_linux :: txEnv where
  "txEnv_linux =
     \<lparr>osType = str ''linux'', isWindows = False, fxServerVersion = 7290,
      txAdminVersion = str ''8.0.1'', txAdminResourcePath = str ''/fx/citizen/monitor'',
      fxServerPath = str ''/fx/citizen'', dataPath = str ''/txData'',
      profile = str ''default'', profilePath = str ''/txData/default''\<rparr>"

definition host_outdated :: "unit host" where
  "host_outdated = host_linux\<lparr>parseFxserverVersion :=
      (\<lambda>version. \<lparr>valid = True, build = 5893, branch = str ''master''\<rparr>)\<rparr>"

definition host_custom_build :: "unit host" where
  "host_custom_build = host_linux\<lparr>parseFxserverVersion :=
      (\<lambda>version. \<lparr>valid = False, build = 0, branch = []\<rparr>)\<rparr>"

definition host_c1_control :: "unit host" where
  "host_c1_control = host_linux\<lparr>GetConvar := (\<lambda>convarName default.
         if convarName = str ''citizen_root'' then str ''/fx/citizen'' @ [0x80]
         else if convarName = str ''txDataPath'' then str ''/txData''
         else default)\<rparr>"

definition host_profile :: "jsstring \<Rightarrow> unit host" where
  "host_profile serverProfile = host_linux\<lparr>GetConvar := (\<lambda>convarName default.
         if convarName = str ''serverProfile'' then serverProfile
         else GetConvar host_linux convarName default)\<rparr>"

definition host_dev :: "jsstring option \<Rightarrow> jsstring option \<Rightarrow> unit host" where
  "host_dev src_path vite_url = host_linux\<lparr>parseTxDevEnv :=
      \<lparr>ENABLED = True, SRC_PATH = src_path, VITE_URL = vite_url, VERBOSE = False\<rparr>\<rparr>"

text \<open>
  The same host with a ZAP file under the data path, given by what \<open>JSON.parse\<close>
  returns for it, the value of \<open>TXADMIN_ENABLE\<close>, and whether the dev environment is
  enabled; and the convars and exports the script resolves from it.
\<close>

definition zapCfgData_with :: "jsval \<Rightarrow> jsval" where
  "zapCfgData_with customer =
     Obj [(str ''interface'', Str (str ''10.0.0.5'')),
          (str ''fxServerPort'', Num 30120),
          (str ''txAdminPort'', Num 40120),
          (str ''loginPageLogo'', Bool False),
          (str ''defaults'', Obj [(str ''license'', Str (str ''cfxk_1'')), (str ''maxClients'', Num 48)]),
          (str ''customer'', customer)]"

definition customer_zap :: "jsstring \<Rightarrow> jsval" where
  "customer_zap hash = Obj [(str ''name'', Str (str ''zap'')), (str ''password_hash'', Str hash)]"

definition host_zap :: "jsval \<Rightarrow> jsstring option \<Rightarrow> bool \<Rightarrow> unit host" where
  "host_zap zapCfgData TXADMIN_ENABLE dev =
     host_linux\<lparr>fs_existsSync := (\<lambda>p. p = str ''/txData/txAdminZapConfig.json''),
                fs_readFileSync := (\<lambda>p. Inr (str ''{ }'')),
                JSON_parse := (\<lambda>text. Inr zapCfgData),
                parseTxDevEnv := \<lparr>ENABLED = dev,
                                  SRC_PATH = (if dev then Some (str ''/src'') else None),
                                  VITE_URL = (if dev then Some (str ''http://localhost:40122'') else None),
                                  VERBOSE = False\<rparr>,
                process_env_TXADMIN_ENABLE := TXADMIN_ENABLE\<rparr>"

text \<open>The same host on a file system where the deletion throws.\<close>

definition host_zap_readonly :: "jsval \<Rightarrow> jsstring option \<Rightarrow> bool \<Rightarrow> unit host" where
  "host_zap_readonly zapCfgData TXADMIN_ENABLE dev =
     (host_zap zapCfgData TXADMIN_ENABLE dev)\<lparr>fs_unlinkSync :=
        (\<lambda>p. Some (Error [T ''EROFS: read-only file system, unlink '', Q, S p, Q]))\<rparr>"

definition convars_zap :: "bool \<Rightarrow> masterAccount option \<Rightarrow> convars" where
  "convars_zap ptero account =
     \<lparr>isPterodactyl = ptero, isZapHosting = \<not> ptero,
      forceInterface = Str (str ''10.0.0.5''), forceFXServerPort = Num 30120,
      txAdminPort = Num 40120, loginPageLogo = Bool False,
      defaultMasterAccount = account,
      deployerDefaults =
        Obj [(str ''license'', Str (str ''cfxk_1'')), (str ''maxClients'', Num 48),
             (str ''mysqlHost'', Undefined), (str ''mysqlPort'', Undefined),
             (str ''mysqlUser'', Undefined), (str ''mysqlPassword'', Undefined),
             (str ''mysqlDatabase'', Undefined)]\<rparr>"

definition exports_zap :: "bool \<Rightarrow> bool \<Rightarrow> unit exports" where
  "exports_zap ptero dev =
     \<lparr>txDevEnv = \<lparr>ENABLED = dev, SRC_PATH = (if dev then Some (str ''/src'') else None),
                  VITE_URL = (if dev then Some (str ''http://localhost:40122'') else None),
                  VERBOSE = False\<rparr>,
      txEnv = txEnv_linux,
      convars = convars_zap ptero (Some \<lparr>name = str ''zap'', password_hash = str ''$2y$10$abc''\<rparr>)\<rparr>"

text \<open>The four errors the customer block throws.\<close>

definition customer_errors :: "js_error set" where
  "customer_errors =
     {Error [T ''customer.name is not a string.''], Error [T ''customer.name too short.''],
      Error [T ''customer.password_hash is not a string.''],
      Error [T ''customer.password_hash is not a bcrypt hash.'']}"


section \<open>Translator: properties\<close>

lemma Translator_new_en: "Translator_new runtime_en (str ''/txData/'') = ([], Inr translator_en)"
  by (simp add: Translator_new_def setupTranslator_def setupTranslator_canonical_def
      setupTranslator_polyglot_def getLanguagePhrases_def runtime_en_def translator_en_def
      polyglot_en_def english_def str_def replace_underscores_def)

lemma reachable_en: "reachable translator_en"
  using Translator_new_en by (rule constructed)

lemma custom_invalid_canonical: "setupTranslator_canonical runtime_custom_invalid = str ''custom''"
  by (simp add: setupTranslator_canonical_def runtime_custom_invalid_def runtime_en_def
      replace_underscores_def str_def)

lemma custom_invalid_fails:
  "setupTranslator_polyglot runtime_custom_invalid (translator_en\<lparr>canonical := str ''custom''\<rparr>) =
     Inl custom_invalid_error"
  by (simp add: setupTranslator_polyglot_def getLanguagePhrases_def runtime_custom_invalid_def
      runtime_en_def translator_en_def custom_invalid_error_def)
     (simp add: str_def)

text \<open>
  A Translator object that exists has a Polyglot instance: the constructor ends the
  process when the first load fails, and no later call clears the field.
\<close>

lemma reachable_loaded: "reachable this \<Longrightarrow> \<exists>p. polyglot this = Some p"
proof (induction rule: reachable.induct)
  case (constructed w dataPath evs this)
  then show ?case
    by (auto simp: Translator_new_def setupTranslator_def Let_def split: sum.splits if_splits)
next
  case (reconfigured this w isFirstTime evs this')
  then show ?case
    by (auto simp: setupTranslator_def Let_def split: sum.splits if_splits)
next
  case (refreshed this w evs this')
  then show ?case
    by (auto simp: refreshConfig_def setupTranslator_def Let_def
        split: sum.splits if_splits prod.splits)
qed

lemma t_loaded: "polyglot this = Some p \<Longrightarrow> \<exists>evs s. t w this key options = (evs, Inr s)"
  by (simp add: t_def onMissingKey_def split: polyglot_t.splits)

text \<open>
  C4, as the code has it. When the load of a reconfiguration fails, the Polyglot
  instance of the Translator is kept, the error is printed with \<open>console.dir\<close>, and
  \<open>t\<close> answers every call as it did before, with a string. The canonical locale tag is
  not kept: it was already recomputed from the newly configured language.
\<close>

theorem setupTranslator_failure_keeps_polyglot:
  assumes "reachable this"
    and "setupTranslator_polyglot w (this\<lparr>canonical := setupTranslator_canonical w\<rparr>) = Inl e"
  shows "setupTranslator w False this =
           ([Console dir [Err e]], Inr (this\<lparr>canonical := setupTranslator_canonical w\<rparr>)) \<and>
         polyglot (this\<lparr>canonical := setupTranslator_canonical w\<rparr>) = polyglot this \<and>
         (\<forall>w' key options.
            t w' (this\<lparr>canonical := setupTranslator_canonical w\<rparr>) key options = t w' this key options \<and>
            (\<exists>evs s. t w' this key options = (evs, Inr s)))"
proof -
  have "setupTranslator w False this =
           ([Console dir [Err e]], Inr (this\<lparr>canonical := setupTranslator_canonical w\<rparr>))"
    using assms(2) by (simp add: setupTranslator_def)
  moreover have "\<forall>w' key options.
      t w' (this\<lparr>canonical := setupTranslator_canonical w\<rparr>) key options = t w' this key options"
    by (simp add: t_def)
  moreover have "\<forall>w' key options. \<exists>evs s. t w' this key options = (evs, Inr s)"
    using assms(1) reachable_loaded t_loaded by blast
  ultimately show ?thesis by simp
qed

theorem setupTranslator_failure_keeps_polyglot_witness:
  "reachable translator_en \<and>
   setupTranslator_polyglot runtime_custom_invalid
       (translator_en\<lparr>canonical := setupTranslator_canonical runtime_custom_invalid\<rparr>) =
     Inl custom_invalid_error \<and>
   setupTranslator runtime_custom_invalid False translator_en =
     ([Console dir [Err custom_invalid_error]], Inr (translator_en\<lparr>canonical := str ''custom''\<rparr>)) \<and>
   polyglot (translator_en\<lparr>canonical := str ''custom''\<rparr>) = Some (polyglot_en) \<and>
   t runtime_custom_invalid (translator_en\<lparr>canonical := str ''custom''\<rparr>) (str ''hello'') Undefined =
     ([], Inr (str ''Hello''))"
proof -
  have f: "setupTranslator_polyglot runtime_custom_invalid
       (translator_en\<lparr>canonical := setupTranslator_canonical runtime_custom_invalid\<rparr>) =
     Inl custom_invalid_error"
    by (simp add: custom_invalid_canonical custom_invalid_fails)
  have h: "t runtime_custom_invalid translator_en (str ''hello'') Undefined = ([], Inr (str ''Hello''))"
    by (simp add: t_def translator_en_def runtime_custom_invalid_def runtime_en_def Polyglot_t_def flat_phrases_def polyglot_en_def
        english_def)
  have p: "polyglot translator_en = Some (polyglot_en)"
    by (simp add: translator_en_def)
  show ?thesis
    using setupTranslator_failure_keeps_polyglot [OF reachable_en f] reachable_en f h p
    by (simp add: custom_invalid_canonical)
qed

text \<open>
  C4, as the claim states it, fails: after a first load of \<open>en\<close>, a reconfiguration to
  the custom language whose file is invalid returns a Translator whose canonical tag is
  \<open>custom\<close>, no longer \<open>en\<close>.
\<close>

theorem setupTranslator_failure_changes_canonical:
  "Translator_new runtime_en (str ''/txData/'') = ([], Inr translator_en) \<and>
   setupTranslator_polyglot runtime_custom_invalid
       (translator_en\<lparr>canonical := setupTranslator_canonical runtime_custom_invalid\<rparr>) =
     Inl custom_invalid_error \<and>
   canonical translator_en = str ''en'' \<and>
   snd (setupTranslator runtime_custom_invalid False translator_en) =
     Inr (translator_en\<lparr>canonical := str ''custom''\<rparr>) \<and>
   translator_en\<lparr>canonical := str ''custom''\<rparr> \<noteq> translator_en"
proof -
  have "canonical (translator_en\<lparr>canonical := str ''custom''\<rparr>) \<noteq> canonical translator_en"
    by (simp add: translator_en_def str_def)
  then have d: "translator_en\<lparr>canonical := str ''custom''\<rparr> \<noteq> translator_en"
    by metis
  show ?thesis
    using Translator_new_en custom_invalid_canonical custom_invalid_fails d
    by (simp add: setupTranslator_def) (simp add: translator_en_def)
qed




text \<open>
  C10. While the Polyglot field is \<open>null\<close>, \<open>t\<close> throws \<open>polyglot not yet loaded\<close>;
  whenever \<open>t\<close> throws, the field is \<open>null\<close>. A \<open>setupTranslator\<close> whose load succeeds
  sets the field, and from then on, and on every Translator object that exists, \<open>t\<close>
  returns a string for every key and every options value.
\<close>

theorem t_throws_iff_polyglot_null:
  "(polyglot this = None \<longrightarrow>
      t w this key options = ([], Inl (Error [T ''polyglot not yet loaded'']))) \<and>
   ((\<exists>e. snd (t w this key options) = Inl e) \<longrightarrow> polyglot this = None) \<and>
   (setupTranslator_polyglot w0 (this0\<lparr>canonical := setupTranslator_canonical w0\<rparr>) = Inr p \<longrightarrow>
      (\<exists>this1. setupTranslator w0 isFirstTime this0 = ([], Inr this1) \<and> polyglot this1 = Some p \<and>
         (\<forall>w' key' options'. \<exists>evs s. t w' this1 key' options' = (evs, Inr s)))) \<and>
   (reachable this \<longrightarrow> (\<exists>evs s. t w this key options = (evs, Inr s)))"
proof (intro conjI impI)
  assume "polyglot this = None"
  then show "t w this key options = ([], Inl (Error [T ''polyglot not yet loaded'']))"
    by (simp add: t_def)
next
  assume "\<exists>e. snd (t w this key options) = Inl e"
  then show "polyglot this = None"
    by (cases "polyglot this") (auto dest: t_loaded [of this _ w key options])
next
  assume ok: "setupTranslator_polyglot w0 (this0\<lparr>canonical := setupTranslator_canonical w0\<rparr>) = Inr p"
  let ?this1 = "this0\<lparr>canonical := setupTranslator_canonical w0, polyglot := Some p\<rparr>"
  have "setupTranslator w0 isFirstTime this0 = ([], Inr ?this1)"
    using ok by (simp add: setupTranslator_def)
  moreover have "polyglot ?this1 = Some p" by simp
  moreover have "\<forall>w' key' options'. \<exists>evs s. t w' ?this1 key' options' = (evs, Inr s)"
    using t_loaded [of ?this1 p] by simp
  ultimately show "\<exists>this1. setupTranslator w0 isFirstTime this0 = ([], Inr this1) \<and>
         polyglot this1 = Some p \<and>
         (\<forall>w' key' options'. \<exists>evs s. t w' this1 key' options' = (evs, Inr s))"
    by blast
next
  assume "reachable this"
  then show "\<exists>evs s. t w this key options = (evs, Inr s)"
    using reachable_loaded t_loaded by blast
qed

theorem t_throws_iff_polyglot_null_witness:
  "polyglot translator_init = None \<and>
   t runtime_en translator_init (str ''hello'') Undefined =
     ([], Inl (Error [T ''polyglot not yet loaded''])) \<and>
   setupTranslator_polyglot runtime_en
       (translator_init\<lparr>canonical := setupTranslator_canonical runtime_en\<rparr>) =
     Inr (polyglot_en) \<and>
   setupTranslator runtime_en True translator_init = ([], Inr translator_en) \<and>
   reachable translator_en \<and>
   t runtime_en translator_en (str ''hello'') Undefined = ([], Inr (str ''Hello''))"
proof -
  have n: "polyglot translator_init = None" by (simp add: translator_init_def)
  have l: "setupTranslator_polyglot runtime_en
       (translator_init\<lparr>canonical := setupTranslator_canonical runtime_en\<rparr>) =
     Inr (polyglot_en)"
    by (simp add: setupTranslator_polyglot_def getLanguagePhrases_def runtime_en_def english_def
        polyglot_en_def)
  have s: "setupTranslator runtime_en True translator_init = ([], Inr translator_en)"
    by (simp add: setupTranslator_def l)
       (simp add: translator_init_def translator_en_def setupTranslator_canonical_def runtime_en_def
          replace_underscores_def str_def)
  have h: "t runtime_en translator_en (str ''hello'') Undefined = ([], Inr (str ''Hello''))"
    by (simp add: t_def translator_en_def runtime_en_def Polyglot_t_def flat_phrases_def polyglot_en_def english_def)
  from t_throws_iff_polyglot_null [of translator_init runtime_en "str ''hello''" Undefined
      runtime_en translator_init "polyglot_en" True] n l
  have "t runtime_en translator_init (str ''hello'') Undefined =
     ([], Inl (Error [T ''polyglot not yet loaded'']))"
    by blast
  moreover from t_throws_iff_polyglot_null [of translator_en runtime_en "str ''hello''" Undefined
      runtime_en translator_init "polyglot_en" True] reachable_en
  have "\<exists>evs s. t runtime_en translator_en (str ''hello'') Undefined = (evs, Inr s)"
    by blast
  ultimately show ?thesis using n l s h reachable_en by simp
qed


section \<open>globalData: properties\<close>

lemma snd_run_bind:
  "snd (run_bind m f) = (case snd m of Inl h \<Rightarrow> Inl h | Inr a \<Rightarrow> snd (f a))"
  by (auto simp: run_bind_def split: prod.splits sum.splits)

lemma run_bind_simps:
  "run_bind (evs, Inl x) f = (evs, Inl x)"
  "run_bind (evs, Inr a) f = (evs @ fst (f a), snd (f a))"
  by (simp_all add: run_bind_def split: prod.splits)

lemma osType_linux: "resolve_osType host_linux = ([], Inr (str ''linux'', False))"
  by (simp add: resolve_osType_def host_linux_def str_def)

lemma fxServerVersion_linux: "resolve_fxServerVersion host_linux = ([], Inr 7290)"
  by (simp add: resolve_fxServerVersion_def host_linux_def minFXServerVersion_def)

lemma getConvarString_linux:
  "getConvarString host_linux (str ''citizen_root'') = Some (str ''/fx/citizen'')"
  "getConvarString host_linux (str ''txDataPath'') = Some (str ''/txData'')"
  "getConvarString host_linux (str ''txAdminInterface'') = None"
  by (simp_all add: getConvarString_def host_linux_def str_def trim_def isWhiteSpace_def)

lemma txEnv_linux: "resolve_txEnv host_linux = ([], Inr txEnv_linux)"
  apply (simp add: resolve_txEnv_def run_bind_simps osType_linux fxServerVersion_linux resolve_txAdminVersion_def
      resolve_txAdminResourcePath_def resolve_fxServerPath_def getConvarString_linux check_winrar_def
      resolve_dataPath_def cleanPath_def)
  apply (simp add: host_linux_def str_def check_nonASCII_def nonASCIIRegex_test_def resolve_profile_def
      trim_def isWhiteSpace_def profile_class_def canonicalize_def endsWith_def cleanPath_def txEnv_linux_def Let_def
      run_bind_simps)
  done

lemma snd_run_bind_neq:
  "snd m \<noteq> Inl x \<Longrightarrow> (\<And>a. snd (f a) \<noteq> Inl x) \<Longrightarrow> snd (run_bind m f) \<noteq> Inl x"
  by (cases "snd m") (auto simp: snd_run_bind)

text \<open>No block but the version gate exits with 102.\<close>

lemma exit_102_only_version:
  assumes "snd (resolve_fxServerVersion h) \<noteq> Inl (process_exit 102)"
  shows "snd (globalData h) \<noteq> Inl (process_exit 102)"
proof -
  have a: "snd (resolve_osType h) \<noteq> Inl (process_exit 102)"
    by (simp add: resolve_osType_def)
  have b: "snd (resolve_txAdminVersion h) \<noteq> Inl (process_exit 102)"
    by (simp add: resolve_txAdminVersion_def split: jsval.splits)
  have c: "snd (resolve_txAdminResourcePath h) \<noteq> Inl (process_exit 102)"
    by (simp add: resolve_txAdminResourcePath_def split: jsval.splits)
  have d: "snd (resolve_fxServerPath h) \<noteq> Inl (process_exit 102)"
    by (simp add: resolve_fxServerPath_def Let_def)
  have e: "\<And>w p. snd (check_winrar w p) \<noteq> Inl (process_exit 102)"
    by (simp add: check_winrar_def)
  have f: "\<And>v p q. snd (check_nonASCII v p q) \<noteq> Inl (process_exit 102)"
    by (simp add: check_nonASCII_def)
  have g: "\<And>p. snd (resolve_profile h p) \<noteq> Inl (process_exit 102)"
    by (simp add: resolve_profile_def Let_def)
  have i: "snd (resolve_txDevEnv h) \<noteq> Inl (process_exit 102)"
    by (simp add: resolve_txDevEnv_def Let_def)
  have j: "\<And>w p b. snd (resolve_convars h w p b) \<noteq> Inl (process_exit 102)"
    by (simp add: resolve_convars_def Let_def snd_run_bind zap_catch_def zap_unlink_def resolve_standard_def
        split: sum.splits option.splits)
  have k: "\<And>x y z. snd (publish x y (z::convars)) \<noteq> Inl (process_exit 102)"
    by (simp add: publish_def)
  have env: "snd (resolve_txEnv h) \<noteq> Inl (process_exit 102)"
    unfolding resolve_txEnv_def
    using assms a b c d e f g
    by (intro snd_run_bind_neq; simp split: prod.splits) (intro allI impI snd_run_bind_neq; simp split: prod.splits)
  show ?thesis
    unfolding globalData_def
    using env i j k by (intro snd_run_bind_neq) simp_all
qed

lemma globalData_fxServerVersion:
  assumes "snd (globalData h) = Inr g"
  shows "snd (resolve_fxServerVersion h) = Inr (fxServerVersion (txEnv g))"
  using assms
  by (auto simp: globalData_def resolve_txEnv_def snd_run_bind publish_def split: sum.splits prod.splits)

lemma resolve_osType_cong: "os_type h' = os_type h \<Longrightarrow> resolve_osType h' = resolve_osType h"
  by (simp add: resolve_osType_def)

text \<open>
  C3. On a supported operating system: a version that parses with a build below 5894
  ends the process with exit code 102; one that parses with a build of 5894 or more
  passes the gate, and \<open>fxServerVersion\<close> of the resolved environment is that build; one
  that does not parse passes the gate with two console errors and the build 99999.
  No other block exits with 102.
\<close>

theorem fxServerVersion_gate:
  assumes "snd (resolve_osType h) = Inr os"
  shows "(let fxsVerParsed = parseFxserverVersion h (getConvarString h (str ''version'')) in
     (valid fxsVerParsed \<and> build fxsVerParsed < 5894 \<longrightarrow>
        snd (resolve_fxServerVersion h) = Inl (process_exit 102) \<and>
        snd (globalData h) = Inl (process_exit 102)) \<and>
     (valid fxsVerParsed \<and> 5894 \<le> build fxsVerParsed \<longrightarrow>
        snd (resolve_fxServerVersion h) = Inr (build fxsVerParsed) \<and>
        snd (globalData h) \<noteq> Inl (process_exit 102) \<and>
        (\<forall>g. snd (globalData h) = Inr g \<longrightarrow> fxServerVersion (txEnv g) = build fxsVerParsed)) \<and>
     (\<not> valid fxsVerParsed \<longrightarrow>
        resolve_fxServerVersion h =
          ([Console error [Msg [T ''It looks like you are running a custom build of fxserver.'']],
            Console error [Msg [T ''And because of that, there is no guarantee that txAdmin will work properly.'']]],
           Inr 99999) \<and>
        snd (globalData h) \<noteq> Inl (process_exit 102) \<and>
        (\<forall>g. snd (globalData h) = Inr g \<longrightarrow> fxServerVersion (txEnv g) = 99999)))"
proof -
  define p where "p = parseFxserverVersion h (getConvarString h (str ''version''))"
  have low: "snd (resolve_fxServerVersion h) = Inl (process_exit 102) \<and>
        snd (globalData h) = Inl (process_exit 102)" if "valid p" "build p < 5894"
  proof -
    have v: "snd (resolve_fxServerVersion h) = Inl (process_exit 102)"
      using that by (simp add: resolve_fxServerVersion_def p_def minFXServerVersion_def)
    then have "snd (resolve_txEnv h) = Inl (process_exit 102)"
      using assms by (simp add: resolve_txEnv_def snd_run_bind split: prod.splits)
    then show ?thesis using v by (simp add: globalData_def snd_run_bind)
  qed
  have high: "snd (resolve_fxServerVersion h) = Inr (build p)" if "valid p" "5894 \<le> build p"
    using that by (simp add: resolve_fxServerVersion_def p_def minFXServerVersion_def Let_def)
  have custom: "resolve_fxServerVersion h =
          ([Console error [Msg [T ''It looks like you are running a custom build of fxserver.'']],
            Console error [Msg [T ''And because of that, there is no guarantee that txAdmin will work properly.'']]],
           Inr 99999)" if "\<not> valid p"
    using that by (simp add: resolve_fxServerVersion_def p_def)
  have cont: "snd (globalData h) \<noteq> Inl (process_exit 102) \<and>
        (\<forall>g. snd (globalData h) = Inr g \<longrightarrow> fxServerVersion (txEnv g) = v)"
    if v: "snd (resolve_fxServerVersion h) = Inr v" for v
  proof (intro conjI allI impI)
    show "snd (globalData h) \<noteq> Inl (process_exit 102)"
      by (rule exit_102_only_version) (simp add: v)
  next
    fix g assume "snd (globalData h) = Inr g"
    from globalData_fxServerVersion [OF this] v show "fxServerVersion (txEnv g) = v" by simp
  qed
  have c1: "valid p \<and> build p < 5894 \<longrightarrow>
        snd (resolve_fxServerVersion h) = Inl (process_exit 102) \<and>
        snd (globalData h) = Inl (process_exit 102)"
    using low by blast
  have c2: "valid p \<and> 5894 \<le> build p \<longrightarrow>
        snd (resolve_fxServerVersion h) = Inr (build p) \<and>
        snd (globalData h) \<noteq> Inl (process_exit 102) \<and>
        (\<forall>g. snd (globalData h) = Inr g \<longrightarrow> fxServerVersion (txEnv g) = build p)"
    using high cont [of "build p"] by blast
  have c3: "\<not> valid p \<longrightarrow>
        resolve_fxServerVersion h =
          ([Console error [Msg [T ''It looks like you are running a custom build of fxserver.'']],
            Console error [Msg [T ''And because of that, there is no guarantee that txAdmin will work properly.'']]],
           Inr 99999) \<and>
        snd (globalData h) \<noteq> Inl (process_exit 102) \<and>
        (\<forall>g. snd (globalData h) = Inr g \<longrightarrow> fxServerVersion (txEnv g) = 99999)"
  proof
    assume n: "\<not> valid p"
    from custom [OF n] have "snd (resolve_fxServerVersion h) = Inr 99999" by simp
    from cont [OF this] custom [OF n] show "resolve_fxServerVersion h =
          ([Console error [Msg [T ''It looks like you are running a custom build of fxserver.'']],
            Console error [Msg [T ''And because of that, there is no guarantee that txAdmin will work properly.'']]],
           Inr 99999) \<and>
        snd (globalData h) \<noteq> Inl (process_exit 102) \<and>
        (\<forall>g. snd (globalData h) = Inr g \<longrightarrow> fxServerVersion (txEnv g) = 99999)"
      by blast
  qed
  show ?thesis
    unfolding Let_def p_def [symmetric]
    using c1 c2 c3 by (intro conjI)
qed

theorem fxServerVersion_gate_witness:
  "snd (resolve_osType host_outdated) = Inr (str ''linux'', False) \<and>
   snd (globalData host_outdated) = Inl (process_exit 102) \<and>
   snd (resolve_osType host_linux) = Inr (str ''linux'', False) \<and>
   snd (resolve_fxServerVersion host_linux) = Inr 7290 \<and>
   snd (resolve_osType host_custom_build) = Inr (str ''linux'', False) \<and>
   snd (resolve_fxServerVersion host_custom_build) = Inr 99999"
proof -
  have a: "snd (resolve_osType host_outdated) = Inr (str ''linux'', False)"
    using resolve_osType_cong [of host_outdated host_linux] by (simp add: host_outdated_def osType_linux)
  have b: "snd (resolve_osType host_linux) = Inr (str ''linux'', False)"
    by (simp add: osType_linux)
  have c: "snd (resolve_osType host_custom_build) = Inr (str ''linux'', False)"
    using resolve_osType_cong [of host_custom_build host_linux] by (simp add: host_custom_build_def osType_linux)
  have "snd (globalData host_outdated) = Inl (process_exit 102)"
    using fxServerVersion_gate [OF a] by (simp add: host_outdated_def Let_def)
  moreover have "snd (resolve_fxServerVersion host_linux) = Inr 7290"
    using fxServerVersion_gate [OF b] by (simp add: host_linux_def Let_def)
  moreover have "snd (resolve_fxServerVersion host_custom_build) = Inr 99999"
    using fxServerVersion_gate [OF c] by (simp add: host_custom_build_def Let_def)
  ultimately show ?thesis using a b c by simp
qed

lemma nonASCIIRegex_test_iff: "nonASCIIRegex_test s \<longleftrightarrow> (\<exists>c \<in> set s. 0x80 < c)"
  by (auto simp: nonASCIIRegex_test_def list_ex_iff not_le)

text \<open>
  C2, evaluated where the code departs from it. The code unit 0x80 lies above 0x7F, yet
  the check lets a server path that contains it pass, and the environment is resolved
  with that path.
\<close>

theorem check_nonASCII_accepts_0x80:
  "(0x7F :: jschar) < 0x80 \<and>
   check_nonASCII 7290 (str ''/fx/citizen'' @ [0x80]) (str ''/txData'') = ([], Inr ()) \<and>
   snd (resolve_txEnv host_c1_control) = Inr (txEnv_linux\<lparr>fxServerPath := str ''/fx/citizen'' @ [0x80]\<rparr>)"
proof -
  have a: "check_nonASCII 7290 (str ''/fx/citizen'' @ [0x80]) (str ''/txData'') = ([], Inr ())"
    by (simp add: check_nonASCII_def nonASCIIRegex_test_def str_def)
  have o: "resolve_osType host_c1_control = ([], Inr (str ''linux'', False))"
    using resolve_osType_cong [of host_c1_control host_linux] by (simp add: host_c1_control_def osType_linux)
  have v: "resolve_fxServerVersion host_c1_control = ([], Inr 7290)"
    by (simp add: resolve_fxServerVersion_def host_c1_control_def host_linux_def minFXServerVersion_def)
  have g: "getConvarString host_c1_control (str ''citizen_root'') = Some (str ''/fx/citizen'' @ [0x80])"
     "getConvarString host_c1_control (str ''txDataPath'') = Some (str ''/txData'')"
    by (simp_all add: getConvarString_def host_c1_control_def str_def trim_def isWhiteSpace_def)
  have "resolve_txEnv host_c1_control = ([], Inr (txEnv_linux\<lparr>fxServerPath := str ''/fx/citizen'' @ [0x80]\<rparr>))"
    apply (simp add: resolve_txEnv_def run_bind_simps o v resolve_txAdminVersion_def
      resolve_txAdminResourcePath_def resolve_fxServerPath_def g check_winrar_def
      resolve_dataPath_def cleanPath_def)
    apply (simp add: host_c1_control_def host_linux_def str_def check_nonASCII_def nonASCIIRegex_test_def
      resolve_profile_def trim_def isWhiteSpace_def profile_class_def canonicalize_def endsWith_def
      cleanPath_def txEnv_linux_def Let_def run_bind_simps)
    done
  with a show ?thesis by simp
qed

lemma canonicalize_lower:
  fixes c :: jschar
  assumes "0x61 \<le> c" "c \<le> 0x7A"
  shows "0x41 \<le> c - 0x20 \<and> c - 0x20 \<le> 0x5A"
  using assms by unat_arith

lemma profile_class_iff:
  "profile_class c \<longleftrightarrow>
     (0x61 \<le> c \<and> c \<le> 0x7A) \<or> (0x41 \<le> c \<and> c \<le> 0x5A) \<or> (0x30 \<le> c \<and> c \<le> 0x39) \<or>
     c = 0x2E \<or> c = 0x5F \<or> c = 0x2D"
proof (cases "0x61 \<le> c \<and> c \<le> 0x7A")
  case True
  then have "canonicalize c = c - 0x20"
    by (simp add: canonicalize_def)
  moreover have "0x41 \<le> c - 0x20 \<and> c - 0x20 \<le> 0x5A"
    using True canonicalize_lower [of c] by blast
  ultimately have "profile_class c"
    unfolding profile_class_def Let_def by simp
  with True show ?thesis by blast
next
  case False
  then have "canonicalize c = c"
    by (auto simp: canonicalize_def)
  with False show ?thesis
    unfolding profile_class_def Let_def by auto
qed

lemma profile_class_not_space: "profile_class c \<Longrightarrow> \<not> isWhiteSpace c"
  unfolding profile_class_iff isWhiteSpace_def by (auto; unat_arith)

lemma dropWhile_filter_id: "(\<And>c. P c \<Longrightarrow> \<not> W c) \<Longrightarrow> dropWhile W (filter P s) = filter P s"
  by (cases "filter P s") (auto simp: filter_eq_Cons_iff)

lemma trim_filter_profile_class: "trim (filter profile_class s) = filter profile_class s"
proof -
  have a: "dropWhile isWhiteSpace (filter profile_class s) = filter profile_class s"
    by (rule dropWhile_filter_id) (rule profile_class_not_space)
  have "dropWhile isWhiteSpace (rev (filter profile_class s)) = rev (filter profile_class s)"
    unfolding rev_filter by (rule dropWhile_filter_id) (rule profile_class_not_space)
  with a show ?thesis by (simp add: trim_def)
qed

lemma endsWith_filter:
  assumes "endsWith s suffix" "list_all P suffix"
  shows "endsWith (filter P s) suffix"
proof -
  from assms(1) have "s = take (length s - length suffix) s @ suffix"
    by (metis append_take_drop_id endsWith_def)
  then have "filter P s = filter P (take (length s - length suffix) s) @ suffix"
    using assms(2) by (metis filter_append filter_id_conv list_all_iff)
  then show ?thesis by (simp add: endsWith_def)
qed

lemma globalData_parts:
  assumes "snd (globalData h) = Inr g"
  shows "snd (resolve_txEnv h) = Inr (txEnv g)"
    and "snd (resolve_txDevEnv h) = Inr (txDevEnv g)"
    and "snd (resolve_convars h (isWindows (txEnv g)) (dataPath (txEnv g)) (ENABLED (txDevEnv g))) =
           Inr (convars g)"
  using assms
  by (auto simp: globalData_def snd_run_bind publish_def split: sum.splits)

lemma resolve_txEnv_parts:
  assumes "snd (resolve_osType h) = Inr (os, win)"
    and "snd (resolve_fxServerVersion h) = Inr v"
    and "snd (resolve_txAdminVersion h) = Inr tv"
    and "snd (resolve_txAdminResourcePath h) = Inr rp"
    and "snd (resolve_fxServerPath h) = Inr fp"
    and "snd (check_winrar win fp) = Inr ()"
    and "snd (check_nonASCII v fp (resolve_dataPath h win fp)) = Inr ()"
  shows "snd (resolve_txEnv h) =
     (case snd (resolve_profile h (resolve_dataPath h win fp)) of
        Inl x \<Rightarrow> Inl x
      | Inr (p, pp) \<Rightarrow>
          Inr \<lparr>osType = os, isWindows = win, fxServerVersion = v, txAdminVersion = tv,
               txAdminResourcePath = rp, fxServerPath = fp,
               dataPath = resolve_dataPath h win fp, profile = p, profilePath = pp\<rparr>)"
  using assms by (simp add: resolve_txEnv_def snd_run_bind split: sum.splits prod.splits)

lemma resolve_profile_eq:
  "resolve_profile h dp =
     (let profile = filter profile_class (GetConvar h (str ''serverProfile'') (str ''default''))
      in if endsWith profile (str ''.base'')
         then ([Console error [Msg [T ''Looks like the folder named '', Q, S profile, Q,
                                    T '' is actually a deployed base instead of a profile.'']]],
               Inl (process_exit 113))
         else if profile = []
         then ([Console error [Msg [T ''Invalid server profile name. Are you using Google Translator on the instructions page? Make sure there are no additional spaces in your command.'']]],
               Inl (process_exit 114))
         else ([], Inr (profile, cleanPath h (path_join h [dp, profile]))))"
  by (simp add: resolve_profile_def trim_filter_profile_class Let_def)

lemma filter_default: "filter profile_class (str ''default'') = str ''default''"
  by (simp add: str_def profile_class_def canonicalize_def)

lemma filter_My_Server: "filter profile_class (str ''My Server!'') = str ''MyServer''"
  by (simp add: str_def profile_class_def canonicalize_def)

lemma not_endsWith_base:
  "\<not> endsWith (str ''default'') (str ''.base'')" "\<not> endsWith (str ''MyServer'') (str ''.base'')"
  "\<not> endsWith [] (str ''.base'')"
  by (simp_all add: endsWith_def str_def)

text \<open>
  C7. When the script reaches the profile block: the name is the convar with every code
  unit outside \<open>a-z\<close>, \<open>A-Z\<close>, \<open>0-9\<close>, \<open>.\<close>, \<open>_\<close>, \<open>-\<close> removed; an empty result
  ends the process with exit code 114; a result, or a raw name, that ends in \<open>.base\<close>
  ends it with 113; any other result is accepted with the profile path joined from the
  data path and the name. So \<open>default\<close> is accepted as it is, and \<open>My Server!\<close> is
  accepted as \<open>MyServer\<close>.
\<close>

theorem resolve_profile_sanitizes:
  assumes "snd (resolve_osType h) = Inr (os, win)"
    and "snd (resolve_fxServerVersion h) = Inr v"
    and "snd (resolve_txAdminVersion h) = Inr tv"
    and "snd (resolve_txAdminResourcePath h) = Inr rp"
    and "snd (resolve_fxServerPath h) = Inr fp"
    and "snd (check_winrar win fp) = Inr ()"
    and "snd (check_nonASCII v fp (resolve_dataPath h win fp)) = Inr ()"
  shows "(let raw = GetConvar h (str ''serverProfile'') (str ''default'');
              sanitized = filter profile_class raw;
              dp = resolve_dataPath h win fp;
              accepted = (\<lambda>p. \<lparr>osType = os, isWindows = win, fxServerVersion = v, txAdminVersion = tv,
                                txAdminResourcePath = rp, fxServerPath = fp, dataPath = dp,
                                profile = p, profilePath = cleanPath h (path_join h [dp, p])\<rparr>)
          in (\<forall>c. profile_class c \<longleftrightarrow>
                    (0x61 \<le> c \<and> c \<le> 0x7A) \<or> (0x41 \<le> c \<and> c \<le> 0x5A) \<or> (0x30 \<le> c \<and> c \<le> 0x39) \<or>
                    c = 0x2E \<or> c = 0x5F \<or> c = 0x2D) \<and>
             (sanitized = [] \<longrightarrow> snd (globalData h) = Inl (process_exit 114)) \<and>
             (endsWith sanitized (str ''.base'') \<longrightarrow> snd (globalData h) = Inl (process_exit 113)) \<and>
             (endsWith raw (str ''.base'') \<longrightarrow> snd (globalData h) = Inl (process_exit 113)) \<and>
             (sanitized \<noteq> [] \<and> \<not> endsWith sanitized (str ''.base'') \<longrightarrow>
                snd (resolve_txEnv h) = Inr (accepted sanitized)) \<and>
             (raw = str ''default'' \<longrightarrow> snd (resolve_txEnv h) = Inr (accepted (str ''default''))) \<and>
             (raw = str ''My Server!'' \<longrightarrow> snd (resolve_txEnv h) = Inr (accepted (str ''MyServer''))))"
proof -
  let ?raw = "GetConvar h (str ''serverProfile'') (str ''default'')"
  let ?dp = "resolve_dataPath h win fp"
  let ?accepted = "\<lambda>p. \<lparr>osType = os, isWindows = win, fxServerVersion = v,
      txAdminVersion = tv, txAdminResourcePath = rp, fxServerPath = fp, dataPath = ?dp,
      profile = p, profilePath = cleanPath h (path_join h [?dp, p])\<rparr>"
  note env = resolve_txEnv_parts [OF assms]
  have e114: "filter profile_class ?raw = [] \<longrightarrow> snd (globalData h) = Inl (process_exit 114)"
  proof
    assume "filter profile_class ?raw = []"
    then have "snd (resolve_profile h ?dp) = Inl (process_exit 114)"
      by (simp add: resolve_profile_eq not_endsWith_base Let_def)
    then show "snd (globalData h) = Inl (process_exit 114)"
      by (simp add: globalData_def snd_run_bind env)
  qed
  have e113: "endsWith (filter profile_class ?raw) (str ''.base'') \<longrightarrow>
      snd (globalData h) = Inl (process_exit 113)"
  proof
    assume "endsWith (filter profile_class ?raw) (str ''.base'')"
    then have "snd (resolve_profile h ?dp) = Inl (process_exit 113)"
      by (simp add: resolve_profile_eq Let_def)
    then show "snd (globalData h) = Inl (process_exit 113)"
      by (simp add: globalData_def snd_run_bind env)
  qed
  have raw113: "endsWith ?raw (str ''.base'') \<longrightarrow> snd (globalData h) = Inl (process_exit 113)"
  proof
    assume "endsWith ?raw (str ''.base'')"
    then have "endsWith (filter profile_class ?raw) (str ''.base'')"
      by (rule endsWith_filter) (simp add: str_def profile_class_def canonicalize_def)
    with e113 show "snd (globalData h) = Inl (process_exit 113)" by (rule mp)
  qed
  have ok: "snd (resolve_txEnv h) = Inr (?accepted (filter profile_class ?raw))"
    if "filter profile_class ?raw \<noteq> []" "\<not> endsWith (filter profile_class ?raw) (str ''.base'')"
    using that by (simp add: env resolve_profile_eq Let_def)
  have d: "?raw = str ''default'' \<longrightarrow> snd (resolve_txEnv h) = Inr (?accepted (str ''default''))"
  proof
    assume r: "?raw = str ''default''"
    have "filter profile_class ?raw \<noteq> []"
      unfolding r filter_default by (simp add: str_def)
    moreover have "\<not> endsWith (filter profile_class ?raw) (str ''.base'')"
      unfolding r filter_default by (rule not_endsWith_base)
    ultimately have "snd (resolve_txEnv h) = Inr (?accepted (filter profile_class ?raw))"
      by (rule ok)
    then show "snd (resolve_txEnv h) = Inr (?accepted (str ''default''))"
      unfolding r filter_default .
  qed
  have m: "?raw = str ''My Server!'' \<longrightarrow> snd (resolve_txEnv h) = Inr (?accepted (str ''MyServer''))"
  proof
    assume r: "?raw = str ''My Server!''"
    have "filter profile_class ?raw \<noteq> []"
      unfolding r filter_My_Server by (simp add: str_def)
    moreover have "\<not> endsWith (filter profile_class ?raw) (str ''.base'')"
      unfolding r filter_My_Server by (rule not_endsWith_base)
    ultimately have "snd (resolve_txEnv h) = Inr (?accepted (filter profile_class ?raw))"
      by (rule ok)
    then show "snd (resolve_txEnv h) = Inr (?accepted (str ''MyServer''))"
      unfolding r filter_My_Server .
  qed
  have cls: "\<forall>c. profile_class c \<longleftrightarrow>
                    (0x61 \<le> c \<and> c \<le> 0x7A) \<or> (0x41 \<le> c \<and> c \<le> 0x5A) \<or> (0x30 \<le> c \<and> c \<le> 0x39) \<or>
                    c = 0x2E \<or> c = 0x5F \<or> c = 0x2D"
    by (rule allI) (rule profile_class_iff)
  have ok': "filter profile_class ?raw \<noteq> [] \<and> \<not> endsWith (filter profile_class ?raw) (str ''.base'') \<longrightarrow>
      snd (resolve_txEnv h) = Inr (?accepted (filter profile_class ?raw))"
    using ok by (intro impI) (elim conjE)
  show ?thesis
    unfolding Let_def
    by (intro conjI) (rule cls, rule e114, rule e113, rule raw113, rule ok', rule d, rule m)
qed

lemma host_profile_stages:
  "snd (resolve_osType (host_profile p)) = Inr (str ''linux'', False)"
  "snd (resolve_fxServerVersion (host_profile p)) = Inr 7290"
  "snd (resolve_txAdminVersion (host_profile p)) = Inr (str ''8.0.1'')"
  "snd (resolve_txAdminResourcePath (host_profile p)) = Inr (str ''/fx/citizen/monitor'')"
  "snd (resolve_fxServerPath (host_profile p)) = Inr (str ''/fx/citizen'')"
  "snd (check_winrar False (str ''/fx/citizen'')) = Inr ()"
  "resolve_dataPath (host_profile p) False (str ''/fx/citizen'') = str ''/txData''"
  "snd (check_nonASCII 7290 (str ''/fx/citizen'') (str ''/txData'')) = Inr ()"
  "GetConvar (host_profile p) (str ''serverProfile'') (str ''default'') = p"
  by (simp_all add: host_profile_def host_linux_def resolve_osType_def resolve_fxServerVersion_def
      minFXServerVersion_def resolve_txAdminVersion_def resolve_txAdminResourcePath_def cleanPath_def
      resolve_fxServerPath_def getConvarString_def trim_def isWhiteSpace_def check_winrar_def
      resolve_dataPath_def check_nonASCII_def nonASCIIRegex_test_def str_def)

theorem resolve_profile_sanitizes_witness:
  "snd (globalData (host_profile [])) = Inl (process_exit 114) \<and>
   snd (globalData (host_profile (str ''myserver.base''))) = Inl (process_exit 113) \<and>
   snd (resolve_txEnv (host_profile (str ''default''))) = Inr txEnv_linux \<and>
   snd (resolve_txEnv (host_profile (str ''My Server!''))) =
     Inr (txEnv_linux\<lparr>profile := str ''MyServer'', profilePath := str ''/txData/MyServer''\<rparr>)"
proof -
  note st = host_profile_stages
  have w: "snd (check_nonASCII 7290 (str ''/fx/citizen'')
             (resolve_dataPath (host_profile p) False (str ''/fx/citizen''))) = Inr ()" for p
    by (simp add: st)
  note prof = resolve_profile_sanitizes [OF st(1) st(2) st(3) st(4) st(5) st(6) w, unfolded Let_def st]
  have e: "endsWith (str ''myserver.base'') (str ''.base'')"
    by (simp add: endsWith_def str_def)
  have j: "cleanPath (host_profile p) (path_join (host_profile p) [str ''/txData'', q]) = str ''/txData'' @ 0x2F # q" for p q
    by (simp add: cleanPath_def host_profile_def host_linux_def)
  have "snd (globalData (host_profile [])) = Inl (process_exit 114)"
    using prof [of "[]"] by simp
  moreover have "snd (globalData (host_profile (str ''myserver.base''))) = Inl (process_exit 113)"
    using prof [of "str ''myserver.base''"] e by blast
  moreover have "snd (resolve_txEnv (host_profile (str ''default''))) = Inr txEnv_linux"
    using prof [of "str ''default''"] by (simp add: j txEnv_linux_def) (simp add: str_def)
  moreover have "snd (resolve_txEnv (host_profile (str ''My Server!''))) =
     Inr (txEnv_linux\<lparr>profile := str ''MyServer'', profilePath := str ''/txData/MyServer''\<rparr>)"
    using prof [of "str ''My Server!''"] by (simp add: j txEnv_linux_def) (simp add: str_def)
  ultimately show ?thesis by simp
qed

text \<open>
  C8. When the script reaches the dev environment block: enabled with the source path
  or the Vite URL missing or empty, the process ends with exit code 108; enabled with
  both present and non-empty, the dev environment is the parsed one, with both values;
  disabled, it is the parsed one with both fields \<open>undefined\<close>.
\<close>

theorem resolve_txDevEnv_all_or_nothing:
  assumes "snd (resolve_txEnv h) = Inr env"
  shows "(let src = parseTxDevEnv h in
     (ENABLED src \<and> (falsy (SRC_PATH src) \<or> falsy (VITE_URL src)) \<longrightarrow>
        snd (resolve_txDevEnv h) = Inl (process_exit 108) \<and>
        snd (globalData h) = Inl (process_exit 108)) \<and>
     (ENABLED src \<and> \<not> falsy (SRC_PATH src) \<and> \<not> falsy (VITE_URL src) \<longrightarrow>
        snd (resolve_txDevEnv h) = Inr src \<and>
        (\<exists>s u. SRC_PATH src = Some s \<and> s \<noteq> [] \<and> VITE_URL src = Some u \<and> u \<noteq> []) \<and>
        (\<forall>g. snd (globalData h) = Inr g \<longrightarrow> txDevEnv g = src)) \<and>
     (\<not> ENABLED src \<longrightarrow>
        snd (resolve_txDevEnv h) = Inr (src\<lparr>SRC_PATH := None, VITE_URL := None\<rparr>) \<and>
        (\<forall>g. snd (globalData h) = Inr g \<longrightarrow>
           txDevEnv g = src\<lparr>SRC_PATH := None, VITE_URL := None\<rparr>)))"
proof -
  let ?src = "parseTxDevEnv h"
  have cont: "txDevEnv g = d" if "snd (resolve_txDevEnv h) = Inr d" "snd (globalData h) = Inr g" for g d
    using globalData_parts(2) [OF that(2)] that(1) by simp
  have partial: "ENABLED ?src \<and> (falsy (SRC_PATH ?src) \<or> falsy (VITE_URL ?src)) \<longrightarrow>
        snd (resolve_txDevEnv h) = Inl (process_exit 108) \<and>
        snd (globalData h) = Inl (process_exit 108)"
  proof
    assume a: "ENABLED ?src \<and> (falsy (SRC_PATH ?src) \<or> falsy (VITE_URL ?src))"
    then have "snd (resolve_txDevEnv h) = Inl (process_exit 108)"
      by (auto simp: resolve_txDevEnv_def Let_def)
    then show "snd (resolve_txDevEnv h) = Inl (process_exit 108) \<and>
        snd (globalData h) = Inl (process_exit 108)"
      using assms by (simp add: globalData_def snd_run_bind)
  qed
  have full: "ENABLED ?src \<and> \<not> falsy (SRC_PATH ?src) \<and> \<not> falsy (VITE_URL ?src) \<longrightarrow>
        snd (resolve_txDevEnv h) = Inr ?src \<and>
        (\<exists>s u. SRC_PATH ?src = Some s \<and> s \<noteq> [] \<and> VITE_URL ?src = Some u \<and> u \<noteq> []) \<and>
        (\<forall>g. snd (globalData h) = Inr g \<longrightarrow> txDevEnv g = ?src)"
  proof
    assume a: "ENABLED ?src \<and> \<not> falsy (SRC_PATH ?src) \<and> \<not> falsy (VITE_URL ?src)"
    then have r: "snd (resolve_txDevEnv h) = Inr ?src"
      by (simp add: resolve_txDevEnv_def Let_def)
    from a have "\<exists>s u. SRC_PATH ?src = Some s \<and> s \<noteq> [] \<and> VITE_URL ?src = Some u \<and> u \<noteq> []"
      by (cases "SRC_PATH ?src"; cases "VITE_URL ?src") simp_all
    with r cont [OF r] show "snd (resolve_txDevEnv h) = Inr ?src \<and>
        (\<exists>s u. SRC_PATH ?src = Some s \<and> s \<noteq> [] \<and> VITE_URL ?src = Some u \<and> u \<noteq> []) \<and>
        (\<forall>g. snd (globalData h) = Inr g \<longrightarrow> txDevEnv g = ?src)"
      by blast
  qed
  have off: "\<not> ENABLED ?src \<longrightarrow>
        snd (resolve_txDevEnv h) = Inr (?src\<lparr>SRC_PATH := None, VITE_URL := None\<rparr>) \<and>
        (\<forall>g. snd (globalData h) = Inr g \<longrightarrow>
           txDevEnv g = ?src\<lparr>SRC_PATH := None, VITE_URL := None\<rparr>)"
  proof
    assume "\<not> ENABLED ?src"
    then have r: "snd (resolve_txDevEnv h) = Inr (?src\<lparr>SRC_PATH := None, VITE_URL := None\<rparr>)"
      by (simp add: resolve_txDevEnv_def Let_def)
    with cont [OF r] show "snd (resolve_txDevEnv h) = Inr (?src\<lparr>SRC_PATH := None, VITE_URL := None\<rparr>) \<and>
        (\<forall>g. snd (globalData h) = Inr g \<longrightarrow>
           txDevEnv g = ?src\<lparr>SRC_PATH := None, VITE_URL := None\<rparr>)"
      by blast
  qed
  show ?thesis
    unfolding Let_def by (intro conjI) (rule partial, rule full, rule off)
qed

lemma resolve_txEnv_cong:
  assumes "path_normalize h' = path_normalize h" "path_join h' = path_join h" "slash h' = slash h"
    "os_type h' = os_type h" "GetConvar h' = GetConvar h"
    "GetCurrentResourceName h' = GetCurrentResourceName h"
    "GetResourceMetadata h' = GetResourceMetadata h" "GetResourcePath h' = GetResourcePath h"
    "parseFxserverVersion h' = parseFxserverVersion h"
  shows "resolve_txEnv h' = resolve_txEnv h"
  unfolding resolve_txEnv_def resolve_osType_def resolve_fxServerVersion_def getConvarString_def
      resolve_txAdminVersion_def resolve_txAdminResourcePath_def cleanPath_def resolve_fxServerPath_def
      resolve_dataPath_def resolve_profile_def assms ..

lemma txEnv_host_dev: "snd (resolve_txEnv (host_dev a b)) = Inr txEnv_linux"
  using resolve_txEnv_cong [of "host_dev a b" host_linux] by (simp add: host_dev_def txEnv_linux)

theorem resolve_txDevEnv_all_or_nothing_witness:
  "snd (resolve_txEnv (host_dev (Some (str ''/src'')) None)) = Inr txEnv_linux \<and>
   snd (globalData (host_dev (Some (str ''/src'')) None)) = Inl (process_exit 108) \<and>
   snd (globalData (host_dev (Some []) (Some (str ''http://localhost:40122'')))) = Inl (process_exit 108) \<and>
   snd (resolve_txDevEnv (host_dev (Some (str ''/src'')) (Some (str ''http://localhost:40122'')))) =
     Inr \<lparr>ENABLED = True, SRC_PATH = Some (str ''/src''),
          VITE_URL = Some (str ''http://localhost:40122''), VERBOSE = False\<rparr> \<and>
   snd (resolve_txEnv host_linux) = Inr txEnv_linux \<and>
   snd (resolve_txDevEnv host_linux) =
     Inr \<lparr>ENABLED = False, SRC_PATH = None, VITE_URL = None, VERBOSE = False\<rparr>"
proof -
  have l: "snd (resolve_txEnv host_linux) = Inr txEnv_linux"
    by (simp add: txEnv_linux)
  have "snd (globalData (host_dev (Some (str ''/src'')) None)) = Inl (process_exit 108)"
    using resolve_txDevEnv_all_or_nothing [OF txEnv_host_dev, of "Some (str ''/src'')" None]
    by (simp add: host_dev_def Let_def)
  moreover have "snd (globalData (host_dev (Some []) (Some (str ''http://localhost:40122'')))) =
      Inl (process_exit 108)"
    using resolve_txDevEnv_all_or_nothing [OF txEnv_host_dev, of "Some []" "Some (str ''http://localhost:40122'')"]
    by (simp add: host_dev_def Let_def)
  moreover have "snd (resolve_txDevEnv (host_dev (Some (str ''/src'')) (Some (str ''http://localhost:40122'')))) =
     Inr \<lparr>ENABLED = True, SRC_PATH = Some (str ''/src''),
          VITE_URL = Some (str ''http://localhost:40122''), VERBOSE = False\<rparr>"
    using resolve_txDevEnv_all_or_nothing [OF txEnv_host_dev, of "Some (str ''/src'')" "Some (str ''http://localhost:40122'')"]
    by (simp add: host_dev_def Let_def str_def)
  moreover have "snd (resolve_txDevEnv host_linux) =
     Inr \<lparr>ENABLED = False, SRC_PATH = None, VITE_URL = None, VERBOSE = False\<rparr>"
    using resolve_txDevEnv_all_or_nothing [OF l] by (simp add: host_linux_def Let_def)
  ultimately show ?thesis using l txEnv_host_dev by simp
qed


subsection \<open>Host type check\<close>

lemma txEnv_host_zap: "snd (resolve_txEnv (host_zap z e d)) = Inr txEnv_linux"
  using resolve_txEnv_cong [of "host_zap z e d" host_linux] by (simp add: host_zap_def txEnv_linux)

lemma txDevEnv_host_zap:
  "snd (resolve_txDevEnv (host_zap z e d)) =
     Inr \<lparr>ENABLED = d, SRC_PATH = (if d then Some (str ''/src'') else None),
          VITE_URL = (if d then Some (str ''http://localhost:40122'') else None), VERBOSE = False\<rparr>"
  by (simp add: resolve_txDevEnv_def host_zap_def str_def)

lemma zapCfgFile_host_zap:
  "zapCfgFile (host_zap z e d) (str ''/txData'') = str ''/txData/txAdminZapConfig.json''"
  by (simp add: zapCfgFile_def host_zap_def host_linux_def str_def)

lemma getprop_zapCfgData_with:
  "getprop (zapCfgData_with c) ''interface'' = Inr (Str (str ''10.0.0.5''))"
  "getprop (zapCfgData_with c) ''fxServerPort'' = Inr (Num 30120)"
  "getprop (zapCfgData_with c) ''txAdminPort'' = Inr (Num 40120)"
  "getprop (zapCfgData_with c) ''loginPageLogo'' = Inr (Bool False)"
  "getprop (zapCfgData_with c) ''customer'' = Inr c"
  by (simp_all add: zapCfgData_with_def str_def)

lemma zap_defaults_with:
  "zap_defaults (zapCfgData_with c) = Inr (deployerDefaults (convars_zap p a))"
  by (simp add: zap_defaults_def try_bind_def zapCfgData_with_def convars_zap_def str_def)

lemma zap_customer_valid:
  "zap_customer (zapCfgData_with (customer_zap (str ''$2y$10$abc''))) =
     Inr (Some \<lparr>name = str ''zap'', password_hash = str ''$2y$10$abc''\<rparr>)"
  by (simp add: zap_customer_def try_bind_def getprop_zapCfgData_with customer_zap_def)
     (simp add: str_def startsWith_def)

lemma zap_parse_valid:
  "zap_parse (host_zap (zapCfgData_with (customer_zap (str ''$2y$10$abc''))) e d)
       (str ''/txData/txAdminZapConfig.json'') p =
     Inr (convars_zap p (Some \<lparr>name = str ''zap'', password_hash = str ''$2y$10$abc''\<rparr>))"
proof -
  have io: "fs_readFileSync (host_zap z e d) f = Inr (str ''{ }'')" "JSON_parse (host_zap z e d) s = Inr z"
    for z f s
    by (simp_all add: host_zap_def)
  show ?thesis
    by (simp add: zap_parse_def try_bind_def io getprop_zapCfgData_with zap_customer_valid
        zap_defaults_with [of _ p None])
       (simp add: convars_zap_def)
qed

lemma fst_run_bind:
  "fst (run_bind m f) = fst m @ (case snd m of Inl h \<Rightarrow> [] | Inr a \<Rightarrow> fst (f a))"
  by (auto simp: run_bind_def split: prod.splits sum.splits)

lemma globalData_convars:
  assumes "snd (resolve_txEnv h) = Inr env" and "snd (resolve_txDevEnv h) = Inr dev"
  shows "snd (globalData h) =
     (case snd (resolve_convars h (isWindows env) (dataPath env) (ENABLED dev)) of
        Inl x \<Rightarrow> Inl x
      | Inr cv \<Rightarrow> Inr \<lparr>txDevEnv = dev, txEnv = env, convars = cv\<rparr>)"
  using assms by (simp add: globalData_def snd_run_bind publish_def split: sum.splits)

lemma resolve_convars_zap:
  assumes "fs_existsSync h (zapCfgFile h dp)"
  shows "resolve_convars h win dp dev =
     run_bind ([Console log [Msg [T ''Loading ZAP-Hosting configuration file.'']]], Inr ()) (\<lambda>_.
       case zap_parse h (zapCfgFile h dp) (\<not> win \<and> process_env_TXADMIN_ENABLE h = Some (str ''1'')) of
         Inl e \<Rightarrow> zap_catch e
       | Inr cv \<Rightarrow> zap_unlink h (zapCfgFile h dp) dev cv)"
  using assms by (simp add: resolve_convars_def)

lemma existsSync_host_zap: "fs_existsSync (host_zap z e d) (str ''/txData/txAdminZapConfig.json'')"
  by (simp add: host_zap_def)

lemma globalData_host_zap:
  "snd (globalData (host_zap (zapCfgData_with (customer_zap (str ''$2y$10$abc''))) e d)) =
     Inr (exports_zap (e = Some (str ''1'')) d)"
proof -
  let ?h = "host_zap (zapCfgData_with (customer_zap (str ''$2y$10$abc''))) e d"
  have dp: "dataPath txEnv_linux = str ''/txData''" "isWindows txEnv_linux = False"
    by (simp_all add: txEnv_linux_def)
  have ex: "fs_existsSync ?h (zapCfgFile ?h (str ''/txData''))"
    by (simp add: zapCfgFile_host_zap existsSync_host_zap)
  have pe: "process_env_TXADMIN_ENABLE (host_zap z' e' d') = e'" "fs_unlinkSync (host_zap z' e' d') f = None"
    for z' e' d' f
    by (simp_all add: host_zap_def host_linux_def)
  show ?thesis
    unfolding globalData_convars [OF txEnv_host_zap txDevEnv_host_zap] dp
      resolve_convars_zap [OF ex] zapCfgFile_host_zap
    by (simp add: snd_run_bind zap_parse_valid zap_unlink_def pe exports_zap_def)
qed

lemma zap_parse_flags:
  assumes "zap_parse h f p = Inr cv"
  shows "isPterodactyl cv = p" and "isZapHosting cv = (\<not> p)"
  using assms by (auto simp: zap_parse_def try_bind_def split: sum.splits)

lemma resolve_standard_flags:
  assumes "snd (resolve_standard h p) = Inr cv"
  shows "isPterodactyl cv = p" and "isZapHosting cv = False"
  using assms by (auto simp: resolve_standard_def Let_def split: if_splits)

lemma zap_unlink_result:
  assumes "snd (zap_unlink h f dev cv) = Inr cv'"
  shows "cv' = cv"
  using assms by (auto simp: zap_unlink_def snd_run_bind zap_catch_def split: if_splits option.splits)

lemma resolve_convars_zap_result:
  assumes "fs_existsSync h (zapCfgFile h dp)"
    and "snd (resolve_convars h win dp dev) = Inr cv"
  shows "zap_parse h (zapCfgFile h dp) (\<not> win \<and> process_env_TXADMIN_ENABLE h = Some (str ''1'')) = Inr cv"
proof (cases "zap_parse h (zapCfgFile h dp) (\<not> win \<and> process_env_TXADMIN_ENABLE h = Some (str ''1''))")
  case (Inl e)
  with assms show ?thesis
    by (simp add: resolve_convars_zap snd_run_bind zap_catch_def)
next
  case (Inr cv')
  with assms have "snd (zap_unlink h (zapCfgFile h dp) dev cv') = Inr cv"
    by (simp add: resolve_convars_zap snd_run_bind)
  then have "cv = cv'" by (rule zap_unlink_result)
  with Inr show ?thesis by simp
qed

text \<open>
  C1, as the code has it. In every resolved environment \<open>isPterodactyl\<close> is the
  marker (not Windows, and \<open>TXADMIN_ENABLE\<close> is \<open>1\<close>), and \<open>isZapHosting\<close> holds exactly
  when the ZAP file exists and the marker is absent: the two are never both true. When
  the file exists and the marker is present, the file is still loaded and its values
  are the exported ones, but the mode is Pterodactyl.
\<close>

theorem hosting_mode_exclusive:
  assumes "snd (globalData h) = Inr g"
  shows "isPterodactyl (convars g) =
           (\<not> isWindows (txEnv g) \<and> process_env_TXADMIN_ENABLE h = Some (str ''1'')) \<and>
         isZapHosting (convars g) =
           (fs_existsSync h (zapCfgFile h (dataPath (txEnv g))) \<and> \<not> isPterodactyl (convars g)) \<and>
         \<not> (isZapHosting (convars g) \<and> isPterodactyl (convars g)) \<and>
         (fs_existsSync h (zapCfgFile h (dataPath (txEnv g))) \<and> isPterodactyl (convars g) \<longrightarrow>
            \<not> isZapHosting (convars g) \<and>
            zap_parse h (zapCfgFile h (dataPath (txEnv g))) True = Inr (convars g))"
proof -
  let ?p = "\<not> isWindows (txEnv g) \<and> process_env_TXADMIN_ENABLE h = Some (str ''1'')"
  let ?f = "zapCfgFile h (dataPath (txEnv g))"
  note cv = globalData_parts(3) [OF assms]
  have flags: "isPterodactyl (convars g) = ?p \<and> isZapHosting (convars g) = (fs_existsSync h ?f \<and> \<not> ?p)"
  proof (cases "fs_existsSync h ?f")
    case True
    from resolve_convars_zap_result [OF True cv] show ?thesis
      using True zap_parse_flags by blast
  next
    case False
    with cv have "snd (resolve_standard h ?p) = Inr (convars g)"
      by (simp add: resolve_convars_def)
    from resolve_standard_flags [OF this] False show ?thesis by simp
  qed
  have loaded: "zap_parse h ?f True = Inr (convars g)"
    if "fs_existsSync h ?f" "isPterodactyl (convars g)"
    using resolve_convars_zap_result [OF that(1) cv] that(2) flags by simp
  from flags loaded show ?thesis by blast
qed

theorem hosting_mode_exclusive_witness:
  "snd (globalData (host_zap (zapCfgData_with (customer_zap (str ''$2y$10$abc''))) None False)) =
     Inr (exports_zap False False) \<and>
   isZapHosting (convars (exports_zap False False)) \<and>
   \<not> isPterodactyl (convars (exports_zap False False)) \<and>
   snd (globalData (host_zap (zapCfgData_with (customer_zap (str ''$2y$10$abc''))) (Some (str ''1'')) False)) =
     Inr (exports_zap True False) \<and>
   fs_existsSync (host_zap (zapCfgData_with (customer_zap (str ''$2y$10$abc''))) (Some (str ''1'')) False)
     (str ''/txData/txAdminZapConfig.json'') \<and>
   isPterodactyl (convars (exports_zap True False)) \<and>
   \<not> isZapHosting (convars (exports_zap True False)) \<and>
   zap_parse (host_zap (zapCfgData_with (customer_zap (str ''$2y$10$abc''))) (Some (str ''1'')) False)
     (str ''/txData/txAdminZapConfig.json'') True = Inr (convars (exports_zap True False))"
proof -
  let ?z = "zapCfgData_with (customer_zap (str ''$2y$10$abc''))"
  have g: "snd (globalData (host_zap ?z None False)) = Inr (exports_zap False False)"
    using globalData_host_zap [of None False] by simp
  have g': "snd (globalData (host_zap ?z (Some (str ''1'')) False)) = Inr (exports_zap True False)"
    using globalData_host_zap [of "Some (str ''1'')" False] by simp
  have f: "zapCfgFile (host_zap ?z e False) (dataPath (txEnv (exports_zap p False))) =
      str ''/txData/txAdminZapConfig.json''" for e p
    by (simp add: exports_zap_def txEnv_linux_def zapCfgFile_host_zap)
  have w: "isWindows (txEnv (exports_zap p False)) = False"
      "process_env_TXADMIN_ENABLE (host_zap ?z e False) = e" for e p
    by (simp_all add: exports_zap_def txEnv_linux_def host_zap_def)
  have a: "isZapHosting (convars (exports_zap False False)) \<and>
      \<not> isPterodactyl (convars (exports_zap False False))"
    using hosting_mode_exclusive [OF g] unfolding f w by (simp add: existsSync_host_zap)
  have b: "isPterodactyl (convars (exports_zap True False)) \<and>
      \<not> isZapHosting (convars (exports_zap True False)) \<and>
      zap_parse (host_zap ?z (Some (str ''1'')) False) (str ''/txData/txAdminZapConfig.json'') True =
        Inr (convars (exports_zap True False))"
    using hosting_mode_exclusive [OF g'] unfolding f w by (simp add: existsSync_host_zap)
  from a b g g' existsSync_host_zap show ?thesis by blast
qed

text \<open>
  C1, as the claim states it, fails: on Linux with \<open>TXADMIN_ENABLE\<close> set to \<open>1\<close> and a
  valid ZAP file under the data path, the environment is resolved with
  \<open>isZapHosting\<close> false and \<open>isPterodactyl\<close> true.
\<close>

theorem zap_file_does_not_take_priority:
  "os_type (host_zap (zapCfgData_with (customer_zap (str ''$2y$10$abc''))) (Some (str ''1'')) False) =
     str ''Linux'' \<and>
   process_env_TXADMIN_ENABLE
     (host_zap (zapCfgData_with (customer_zap (str ''$2y$10$abc''))) (Some (str ''1'')) False) =
     Some (str ''1'') \<and>
   fs_existsSync (host_zap (zapCfgData_with (customer_zap (str ''$2y$10$abc''))) (Some (str ''1'')) False)
     (zapCfgFile (host_zap (zapCfgData_with (customer_zap (str ''$2y$10$abc''))) (Some (str ''1'')) False)
        (str ''/txData'')) \<and>
   snd (globalData (host_zap (zapCfgData_with (customer_zap (str ''$2y$10$abc''))) (Some (str ''1'')) False)) =
     Inr (exports_zap True False) \<and>
   isZapHosting (convars (exports_zap True False)) = False \<and>
   isPterodactyl (convars (exports_zap True False)) = True"
  using globalData_host_zap [of "Some (str ''1'')" False]
  by (simp add: zapCfgFile_host_zap existsSync_host_zap)
     (simp add: host_zap_def host_linux_def exports_zap_def convars_zap_def)

lemma getprop_defined:
  assumes "getprop z p = Inr v"
  shows "\<exists>v'. getprop z q = Inr v'"
  using assms by (cases z) simp_all

lemma getprop_truthy: "truthy c \<Longrightarrow> \<exists>v. getprop c p = Inr v"
  by (cases c) simp_all

lemma zap_parse_customer:
  assumes "fs_readFileSync h f = Inr text" and "JSON_parse h text = Inr z"
    and "getprop z ''customer'' = Inr c"
  shows "zap_parse h f p =
     (case zap_defaults z of
        Inl e \<Rightarrow> Inl e
      | Inr d \<Rightarrow>
          (case zap_customer z of
             Inl e \<Rightarrow> Inl e
           | Inr account \<Rightarrow>
               Inr \<lparr>isPterodactyl = p, isZapHosting = \<not> p,
                    forceInterface = projr (getprop z ''interface''),
                    forceFXServerPort = projr (getprop z ''fxServerPort''),
                    txAdminPort = projr (getprop z ''txAdminPort''),
                    loginPageLogo = projr (getprop z ''loginPageLogo''),
                    defaultMasterAccount = account, deployerDefaults = d\<rparr>))"
proof -
  obtain a b c' d where "getprop z ''interface'' = Inr a" "getprop z ''fxServerPort'' = Inr b"
    "getprop z ''txAdminPort'' = Inr c'" "getprop z ''loginPageLogo'' = Inr d"
    using getprop_defined [OF assms(3)] by metis
  then show ?thesis
    using assms(1,2) by (simp add: zap_parse_def try_bind_def split: sum.splits)
qed

lemma zap_customer_rejects:
  assumes "getprop z ''customer'' = Inr c" and "truthy c"
    and "getprop c ''name'' = Inr nm" and "getprop c ''password_hash'' = Inr pw"
    and "\<not> (\<exists>n. nm = Str n \<and> 3 \<le> length n) \<or> \<not> (\<exists>p. pw = Str p \<and> startsWith p (str ''$2y$''))"
  shows "\<exists>e \<in> customer_errors. zap_customer z = Inl e"
  using assms
  by (cases nm; cases pw) (auto simp: zap_customer_def try_bind_def customer_errors_def not_le)

lemma zap_customer_accepts:
  assumes "getprop z ''customer'' = Inr c" and "truthy c"
    and "getprop c ''name'' = Inr (Str n)" and "getprop c ''password_hash'' = Inr (Str p)"
    and "3 \<le> length n" and "startsWith p (str ''$2y$'')"
  shows "zap_customer z = Inr (Some \<lparr>name = n, password_hash = p\<rparr>)"
  using assms by (simp add: zap_customer_def try_bind_def)

text \<open>
  C6. When the script reaches the host type check, the ZAP file exists and parses, and
  its \<open>customer\<close> is truthy: if the name is not a string of length 3 or more, or the
  password hash is not a string that starts with \<open>$2y$\<close>, the process ends with exit
  code 109, and (when the deployer defaults could be read) the console error carries the
  message of the error thrown by the customer block; otherwise every resolved
  environment has \<open>defaultMasterAccount\<close> with exactly that name and hash, and the
  resolution completes when the defaults can be read and the deletion does not throw.
\<close>

theorem zap_customer_validated:
  assumes "snd (resolve_txEnv h) = Inr env" and "snd (resolve_txDevEnv h) = Inr dev"
    and "fs_existsSync h (zapCfgFile h (dataPath env))"
    and "fs_readFileSync h (zapCfgFile h (dataPath env)) = Inr text"
    and "JSON_parse h text = Inr zapCfgData"
    and "getprop zapCfgData ''customer'' = Inr customer" and "truthy customer"
    and "getprop customer ''name'' = Inr nm" and "getprop customer ''password_hash'' = Inr pw"
  shows "(\<not> (\<exists>n. nm = Str n \<and> 3 \<le> length n) \<or> \<not> (\<exists>p. pw = Str p \<and> startsWith p (str ''$2y$'')) \<longrightarrow>
            snd (globalData h) = Inl (process_exit 109) \<and>
            (\<forall>d. zap_defaults zapCfgData = Inr d \<longrightarrow>
               (\<exists>e \<in> customer_errors.
                  fst (resolve_convars h (isWindows env) (dataPath env) (ENABLED dev)) =
                    [Console log [Msg [T ''Loading ZAP-Hosting configuration file.'']],
                     Console error [Msg (T ''Failed to load with ZAP-Hosting configuration error: '' #
                                         message e)]]))) \<and>
         (\<forall>n p. nm = Str n \<and> 3 \<le> length n \<and> pw = Str p \<and> startsWith p (str ''$2y$'') \<longrightarrow>
            (\<forall>g. snd (globalData h) = Inr g \<longrightarrow>
               defaultMasterAccount (convars g) = Some \<lparr>name = n, password_hash = p\<rparr>) \<and>
            (\<forall>d. zap_defaults zapCfgData = Inr d \<and>
                  (ENABLED dev \<or> fs_unlinkSync h (zapCfgFile h (dataPath env)) = None) \<longrightarrow>
               (\<exists>g. snd (globalData h) = Inr g)))"
proof (intro conjI impI allI)
  let ?f = "zapCfgFile h (dataPath env)"
  let ?p = "\<not> isWindows env \<and> process_env_TXADMIN_ENABLE h = Some (str ''1'')"
  note parse = zap_parse_customer [OF assms(4,5,6)]
  note rc = resolve_convars_zap [OF assms(3)]
  note gd = globalData_convars [OF assms(1,2)]
  {
    assume bad: "\<not> (\<exists>n. nm = Str n \<and> 3 \<le> length n) \<or> \<not> (\<exists>p. pw = Str p \<and> startsWith p (str ''$2y$''))"
    from zap_customer_rejects [OF assms(6,7,8,9) bad]
    obtain e where e: "e \<in> customer_errors" "zap_customer zapCfgData = Inl e" by blast
    then obtain e' where "zap_parse h ?f ?p = Inl e'"
      by (cases "zap_defaults zapCfgData") (simp_all add: parse)
    then have "snd (resolve_convars h (isWindows env) (dataPath env) (ENABLED dev)) = Inl (process_exit 109)"
      by (simp add: rc snd_run_bind zap_catch_def)
    then show "snd (globalData h) = Inl (process_exit 109)"
      by (simp add: gd)
    fix d assume "zap_defaults zapCfgData = Inr d"
    with e have "zap_parse h ?f ?p = Inl e"
      by (simp add: parse)
    then have "fst (resolve_convars h (isWindows env) (dataPath env) (ENABLED dev)) =
                    [Console log [Msg [T ''Loading ZAP-Hosting configuration file.'']],
                     Console error [Msg (T ''Failed to load with ZAP-Hosting configuration error: '' #
                                         message e)]]"
      by (simp add: rc fst_run_bind zap_catch_def)
    with e(1) show "\<exists>e \<in> customer_errors.
                  fst (resolve_convars h (isWindows env) (dataPath env) (ENABLED dev)) =
                    [Console log [Msg [T ''Loading ZAP-Hosting configuration file.'']],
                     Console error [Msg (T ''Failed to load with ZAP-Hosting configuration error: '' #
                                         message e)]]"
      by blast
  }
  fix n p
  assume good: "nm = Str n \<and> 3 \<le> length n \<and> pw = Str p \<and> startsWith p (str ''$2y$'')"
  with assms(8,9) have "getprop customer ''name'' = Inr (Str n)"
      "getprop customer ''password_hash'' = Inr (Str p)" "3 \<le> length n" "startsWith p (str ''$2y$'')"
    by simp_all
  note acc = zap_customer_accepts [OF assms(6,7) this]
  {
    fix g assume g: "snd (globalData h) = Inr g"
    with gd obtain cv where cv: "snd (resolve_convars h (isWindows env) (dataPath env) (ENABLED dev)) = Inr cv"
        and "g = \<lparr>txDevEnv = dev, txEnv = env, convars = cv\<rparr>"
      by (cases "snd (resolve_convars h (isWindows env) (dataPath env) (ENABLED dev))") simp_all
    then have c: "convars g = cv" by simp
    from resolve_convars_zap_result [OF assms(3) cv] have "zap_parse h ?f ?p = Inr cv" .
    then have "defaultMasterAccount cv = Some \<lparr>name = n, password_hash = p\<rparr>"
      by (cases "zap_defaults zapCfgData") (auto simp: parse acc)
    with c show "defaultMasterAccount (convars g) = Some \<lparr>name = n, password_hash = p\<rparr>"
      by simp
  }
  fix d
  assume d: "zap_defaults zapCfgData = Inr d \<and> (ENABLED dev \<or> fs_unlinkSync h ?f = None)"
  then obtain cv where "zap_parse h ?f ?p = Inr cv"
    by (simp add: parse acc)
  with d have "snd (resolve_convars h (isWindows env) (dataPath env) (ENABLED dev)) = Inr cv"
    by (auto simp: rc snd_run_bind zap_unlink_def)
  then show "\<exists>g. snd (globalData h) = Inr g"
    by (simp add: gd)
qed

lemma zap_parse_io:
  "fs_readFileSync (host_zap z e d) f = Inr (str ''{ }'')" "JSON_parse (host_zap z e d) s = Inr z"
  by (simp_all add: host_zap_def)

lemma getprop_customer_zap:
  "getprop (customer_zap hash) ''name'' = Inr (Str (str ''zap''))"
  "getprop (customer_zap hash) ''password_hash'' = Inr (Str hash)"
  "truthy (customer_zap hash)"
  by (simp_all add: customer_zap_def str_def)

theorem zap_customer_validated_witness:
  "\<not> startsWith (str ''$1$md5'') (str ''$2y$'') \<and>
   snd (globalData (host_zap (zapCfgData_with (customer_zap (str ''$1$md5''))) None False)) =
     Inl (process_exit 109) \<and>
   (3::nat) \<le> length (str ''zap'') \<and> startsWith (str ''$2y$10$abc'') (str ''$2y$'') \<and>
   snd (globalData (host_zap (zapCfgData_with (customer_zap (str ''$2y$10$abc''))) None False)) =
     Inr (exports_zap False False) \<and>
   defaultMasterAccount (convars (exports_zap False False)) =
     Some \<lparr>name = str ''zap'', password_hash = str ''$2y$10$abc''\<rparr>"
proof -
  have d: "dataPath txEnv_linux = str ''/txData''"
    by (simp add: txEnv_linux_def)
  have ex: "fs_existsSync (host_zap z e b) (zapCfgFile (host_zap z e b) (dataPath txEnv_linux))" for z e b
    by (simp add: d zapCfgFile_host_zap existsSync_host_zap)
  note w = zap_customer_validated [OF txEnv_host_zap txDevEnv_host_zap ex zap_parse_io
      getprop_zapCfgData_with(5) getprop_customer_zap(3) getprop_customer_zap(1,2)]
  have s: "\<not> startsWith (str ''$1$md5'') (str ''$2y$'')" "startsWith (str ''$2y$10$abc'') (str ''$2y$'')"
      "(3::nat) \<le> length (str ''zap'')"
    by (simp_all add: startsWith_def str_def)
  have "snd (globalData (host_zap (zapCfgData_with (customer_zap (str ''$1$md5''))) None False)) =
     Inl (process_exit 109)"
    using w [of "str ''$1$md5''" None False] s by simp
  moreover have "defaultMasterAccount (convars (exports_zap False False)) =
     Some \<lparr>name = str ''zap'', password_hash = str ''$2y$10$abc''\<rparr>"
    using w [of "str ''$2y$10$abc''" None False] s globalData_host_zap [of None False] by simp
  ultimately show ?thesis
    using s globalData_host_zap [of None False] by simp
qed

lemma no_unlink_run_bind:
  assumes "unlinkSync p \<notin> set (fst m)" and "\<And>a. unlinkSync p \<notin> set (fst (f a))"
  shows "unlinkSync p \<notin> set (fst (run_bind m f))"
  using assms by (simp add: fst_run_bind split: sum.splits)

lemma no_unlink_txEnv: "unlinkSync p \<notin> set (fst (resolve_txEnv h))"
proof -
  have a: "unlinkSync p \<notin> set (fst (resolve_osType h))"
    by (simp add: resolve_osType_def)
  have b: "unlinkSync p \<notin> set (fst (resolve_fxServerVersion h))"
    by (simp add: resolve_fxServerVersion_def Let_def)
  have c: "unlinkSync p \<notin> set (fst (resolve_txAdminVersion h))"
    by (simp add: resolve_txAdminVersion_def split: jsval.splits)
  have d: "unlinkSync p \<notin> set (fst (resolve_txAdminResourcePath h))"
    by (simp add: resolve_txAdminResourcePath_def split: jsval.splits)
  have e: "unlinkSync p \<notin> set (fst (resolve_fxServerPath h))"
    by (simp add: resolve_fxServerPath_def Let_def)
  have f: "\<And>w q. unlinkSync p \<notin> set (fst (check_winrar w q))"
    by (simp add: check_winrar_def)
  have g: "\<And>v q r. unlinkSync p \<notin> set (fst (check_nonASCII v q r))"
    by (simp add: check_nonASCII_def)
  have i: "\<And>q. unlinkSync p \<notin> set (fst (resolve_profile h q))"
    by (simp add: resolve_profile_def Let_def)
  show ?thesis
    unfolding resolve_txEnv_def
    using a b c d e f g i
    by (intro no_unlink_run_bind; simp split: prod.splits)
       (intro allI impI no_unlink_run_bind; simp split: prod.splits)
qed

lemma no_unlink_txDevEnv: "unlinkSync p \<notin> set (fst (resolve_txDevEnv h))"
  by (simp add: resolve_txDevEnv_def Let_def)

lemma no_unlink_publish: "unlinkSync p \<notin> set (fst (publish env dev cv))"
  by (simp add: publish_def)

lemma unlink_globalData:
  assumes "snd (resolve_txEnv h) = Inr env" and "snd (resolve_txDevEnv h) = Inr dev"
  shows "unlinkSync p \<in> set (fst (globalData h)) \<longleftrightarrow>
         unlinkSync p \<in> set (fst (resolve_convars h (isWindows env) (dataPath env) (ENABLED dev)))"
  using assms no_unlink_txEnv [of p h] no_unlink_txDevEnv [of p h] no_unlink_publish [of p env dev]
  by (simp add: globalData_def fst_run_bind snd_run_bind split: sum.splits)

lemma unlink_zap_unlink:
  "unlinkSync p \<in> set (fst (zap_unlink h f dev cv)) \<longleftrightarrow> \<not> dev \<and> p = f"
  by (auto simp: zap_unlink_def fst_run_bind zap_catch_def split: option.splits)

lemma zap_parse_cong:
  assumes "fs_readFileSync h' = fs_readFileSync h" and "JSON_parse h' = JSON_parse h"
  shows "zap_parse h' f p = zap_parse h f p"
  by (simp add: zap_parse_def assms)

lemma host_zap_readonly_facts:
  "snd (resolve_txEnv (host_zap_readonly z e d)) = Inr txEnv_linux"
  "snd (resolve_txDevEnv (host_zap_readonly z e d)) = snd (resolve_txDevEnv (host_zap z e d))"
  "zapCfgFile (host_zap_readonly z e d) (str ''/txData'') = str ''/txData/txAdminZapConfig.json''"
  "fs_existsSync (host_zap_readonly z e d) (str ''/txData/txAdminZapConfig.json'')"
  "zap_parse (host_zap_readonly z e d) f p = zap_parse (host_zap z e d) f p"
  "process_env_TXADMIN_ENABLE (host_zap_readonly z e d) = e"
  "fs_unlinkSync (host_zap_readonly z e d) f =
     Some (Error [T ''EROFS: read-only file system, unlink '', Q, S f, Q])"
proof -
  show "snd (resolve_txEnv (host_zap_readonly z e d)) = Inr txEnv_linux"
    using resolve_txEnv_cong [of "host_zap_readonly z e d" "host_zap z e d"] txEnv_host_zap [of z e d]
    by (simp add: host_zap_readonly_def)
  show "snd (resolve_txDevEnv (host_zap_readonly z e d)) = snd (resolve_txDevEnv (host_zap z e d))"
    by (simp add: resolve_txDevEnv_def host_zap_readonly_def)
  show "zapCfgFile (host_zap_readonly z e d) (str ''/txData'') = str ''/txData/txAdminZapConfig.json''"
    using zapCfgFile_host_zap [of z e d] by (simp add: zapCfgFile_def host_zap_readonly_def)
  show "fs_existsSync (host_zap_readonly z e d) (str ''/txData/txAdminZapConfig.json'')"
    using existsSync_host_zap [of z e d] by (simp add: host_zap_readonly_def)
  show "zap_parse (host_zap_readonly z e d) f p = zap_parse (host_zap z e d) f p"
    by (rule zap_parse_cong) (simp_all add: host_zap_readonly_def)
  show "process_env_TXADMIN_ENABLE (host_zap_readonly z e d) = e"
    by (simp add: host_zap_readonly_def host_zap_def)
  show "fs_unlinkSync (host_zap_readonly z e d) f =
     Some (Error [T ''EROFS: read-only file system, unlink '', Q, S f, Q])"
    by (simp add: host_zap_readonly_def)
qed

text \<open>
  C9, as the code has it. When the script reaches the host type check and the ZAP file
  exists, parses and validates: \<open>fs.unlinkSync\<close> is called, on that file and no other,
  exactly when the dev environment is not enabled. With the dev environment enabled the
  file is left in place and the environment is resolved with the parsed convars; with
  it disabled and a deletion that returns, the file is deleted and the environment is
  resolved with the same convars; with it disabled and a deletion that throws, the file
  is left in place and the process ends with exit code 109. Every resolved environment
  has the parsed convars.
\<close>

theorem zap_file_deleted_unless_dev:
  assumes "snd (resolve_txEnv h) = Inr env" and "snd (resolve_txDevEnv h) = Inr dev"
    and "fs_existsSync h (zapCfgFile h (dataPath env))"
    and "zap_parse h (zapCfgFile h (dataPath env))
           (\<not> isWindows env \<and> process_env_TXADMIN_ENABLE h = Some (str ''1'')) = Inr cv"
  shows "(\<forall>p. unlinkSync p \<in> set (fst (globalData h)) \<longleftrightarrow>
               \<not> ENABLED dev \<and> p = zapCfgFile h (dataPath env)) \<and>
         (ENABLED dev \<longrightarrow>
            \<not> file_deleted h (fst (globalData h)) (zapCfgFile h (dataPath env)) \<and>
            snd (globalData h) = Inr \<lparr>txDevEnv = dev, txEnv = env, convars = cv\<rparr>) \<and>
         (\<not> ENABLED dev \<and> fs_unlinkSync h (zapCfgFile h (dataPath env)) = None \<longrightarrow>
            file_deleted h (fst (globalData h)) (zapCfgFile h (dataPath env)) \<and>
            snd (globalData h) = Inr \<lparr>txDevEnv = dev, txEnv = env, convars = cv\<rparr>) \<and>
         (\<not> ENABLED dev \<and> fs_unlinkSync h (zapCfgFile h (dataPath env)) \<noteq> None \<longrightarrow>
            \<not> file_deleted h (fst (globalData h)) (zapCfgFile h (dataPath env)) \<and>
            snd (globalData h) = Inl (process_exit 109)) \<and>
         (\<forall>g. snd (globalData h) = Inr g \<longrightarrow> g = \<lparr>txDevEnv = dev, txEnv = env, convars = cv\<rparr>) \<and>
         (\<forall>b cv'. snd (resolve_convars h (isWindows env) (dataPath env) b) = Inr cv' \<longrightarrow> cv' = cv)"
proof (intro conjI allI impI)
  let ?f = "zapCfgFile h (dataPath env)"
  note rc = resolve_convars_zap [OF assms(3)]
  note gd = globalData_convars [OF assms(1,2)]
  have same: "cv' = cv" if "snd (resolve_convars h (isWindows env) (dataPath env) b) = Inr cv'" for b cv'
    using resolve_convars_zap_result [OF assms(3) that] assms(4) by simp
  have called: "unlinkSync p \<in> set (fst (globalData h)) \<longleftrightarrow> \<not> ENABLED dev \<and> p = ?f" for p
    unfolding unlink_globalData [OF assms(1,2)]
    by (simp add: rc fst_run_bind assms(4) unlink_zap_unlink)
  show "unlinkSync p \<in> set (fst (globalData h)) \<longleftrightarrow> \<not> ENABLED dev \<and> p = ?f" for p
    by (rule called)
  show "\<not> file_deleted h (fst (globalData h)) ?f" if "ENABLED dev"
    using that by (simp add: file_deleted_def called)
  show "snd (globalData h) = Inr \<lparr>txDevEnv = dev, txEnv = env, convars = cv\<rparr>" if "ENABLED dev"
    using that by (simp add: gd rc snd_run_bind assms(4) zap_unlink_def)
  show "file_deleted h (fst (globalData h)) ?f" if "\<not> ENABLED dev \<and> fs_unlinkSync h ?f = None"
    using that by (simp add: file_deleted_def called)
  show "snd (globalData h) = Inr \<lparr>txDevEnv = dev, txEnv = env, convars = cv\<rparr>"
    if "\<not> ENABLED dev \<and> fs_unlinkSync h ?f = None"
    using that by (simp add: gd rc snd_run_bind assms(4) zap_unlink_def)
  show "\<not> file_deleted h (fst (globalData h)) ?f" if "\<not> ENABLED dev \<and> fs_unlinkSync h ?f \<noteq> None"
    using that by (simp add: file_deleted_def)
  show "snd (globalData h) = Inl (process_exit 109)" if "\<not> ENABLED dev \<and> fs_unlinkSync h ?f \<noteq> None"
    using that by (auto simp: gd rc snd_run_bind assms(4) zap_unlink_def zap_catch_def)
  show "g = \<lparr>txDevEnv = dev, txEnv = env, convars = cv\<rparr>" if "snd (globalData h) = Inr g" for g
    using that same by (auto simp: gd split: sum.splits)
  show "cv' = cv" if "snd (resolve_convars h (isWindows env) (dataPath env) b) = Inr cv'" for b cv'
    using that by (rule same)
qed

lemma zap_parse_txEnv_linux:
  "zap_parse (host_zap (zapCfgData_with (customer_zap (str ''$2y$10$abc''))) None b)
       (zapCfgFile (host_zap (zapCfgData_with (customer_zap (str ''$2y$10$abc''))) None b)
          (dataPath txEnv_linux))
       (\<not> isWindows txEnv_linux \<and>
        process_env_TXADMIN_ENABLE (host_zap (zapCfgData_with (customer_zap (str ''$2y$10$abc''))) None b) =
          Some (str ''1'')) =
     Inr (convars_zap False (Some \<lparr>name = str ''zap'', password_hash = str ''$2y$10$abc''\<rparr>))"
proof -
  have "process_env_TXADMIN_ENABLE (host_zap z e d) = e" for z e d
    by (simp add: host_zap_def)
  then show ?thesis
    by (simp add: txEnv_linux_def zapCfgFile_host_zap zap_parse_valid)
qed

lemma zap_parse_readonly:
  "zap_parse (host_zap_readonly (zapCfgData_with (customer_zap (str ''$2y$10$abc''))) None b)
       (zapCfgFile (host_zap_readonly (zapCfgData_with (customer_zap (str ''$2y$10$abc''))) None b)
          (dataPath txEnv_linux))
       (\<not> isWindows txEnv_linux \<and>
        process_env_TXADMIN_ENABLE
          (host_zap_readonly (zapCfgData_with (customer_zap (str ''$2y$10$abc''))) None b) =
          Some (str ''1'')) =
     Inr (convars_zap False (Some \<lparr>name = str ''zap'', password_hash = str ''$2y$10$abc''\<rparr>))"
  by (simp add: host_zap_readonly_facts txEnv_linux_def zap_parse_valid)

lemma existsSync_txEnv_linux:
  "fs_existsSync (host_zap z e b) (zapCfgFile (host_zap z e b) (dataPath txEnv_linux))"
  "fs_existsSync (host_zap_readonly z e b) (zapCfgFile (host_zap_readonly z e b) (dataPath txEnv_linux))"
  by (simp_all add: txEnv_linux_def zapCfgFile_host_zap existsSync_host_zap host_zap_readonly_facts)

lemma txDevEnv_host_zap_readonly:
  "snd (resolve_txDevEnv (host_zap_readonly z e d)) =
     Inr \<lparr>ENABLED = d, SRC_PATH = (if d then Some (str ''/src'') else None),
          VITE_URL = (if d then Some (str ''http://localhost:40122'') else None), VERBOSE = False\<rparr>"
  by (simp add: host_zap_readonly_facts txDevEnv_host_zap)

theorem zap_file_deleted_unless_dev_witness:
  "unlinkSync (str ''/txData/txAdminZapConfig.json'') \<notin>
     set (fst (globalData (host_zap (zapCfgData_with (customer_zap (str ''$2y$10$abc''))) None True))) \<and>
   snd (globalData (host_zap (zapCfgData_with (customer_zap (str ''$2y$10$abc''))) None True)) =
     Inr (exports_zap False True) \<and>
   file_deleted (host_zap (zapCfgData_with (customer_zap (str ''$2y$10$abc''))) None False)
     (fst (globalData (host_zap (zapCfgData_with (customer_zap (str ''$2y$10$abc''))) None False)))
     (str ''/txData/txAdminZapConfig.json'') \<and>
   snd (globalData (host_zap (zapCfgData_with (customer_zap (str ''$2y$10$abc''))) None False)) =
     Inr (exports_zap False False) \<and>
   convars (exports_zap False True) = convars (exports_zap False False) \<and>
   unlinkSync (str ''/txData/txAdminZapConfig.json'') \<in>
     set (fst (globalData (host_zap_readonly (zapCfgData_with (customer_zap (str ''$2y$10$abc''))) None False))) \<and>
   snd (globalData (host_zap_readonly (zapCfgData_with (customer_zap (str ''$2y$10$abc''))) None False)) =
     Inl (process_exit 109)"
proof -
  let ?z = "zapCfgData_with (customer_zap (str ''$2y$10$abc''))"
  have d: "dataPath txEnv_linux = str ''/txData''"
    by (simp add: txEnv_linux_def)
  have ok: "fs_unlinkSync (host_zap z e b) f = None" for z e b f
    by (simp add: host_zap_def host_linux_def)
  note w = zap_file_deleted_unless_dev [OF txEnv_host_zap txDevEnv_host_zap existsSync_txEnv_linux(1)
      zap_parse_txEnv_linux, unfolded d zapCfgFile_host_zap]
  note r = zap_file_deleted_unless_dev [OF host_zap_readonly_facts(1) txDevEnv_host_zap_readonly
      existsSync_txEnv_linux(2) zap_parse_readonly, unfolded d host_zap_readonly_facts(3)]
  have "unlinkSync (str ''/txData/txAdminZapConfig.json'') \<notin> set (fst (globalData (host_zap ?z None True)))"
    using w [of True, THEN conjunct1] by simp
  moreover have "snd (globalData (host_zap ?z None True)) = Inr (exports_zap False True)"
    using w [of True, THEN conjunct2, THEN conjunct1] by (simp add: exports_zap_def)
  moreover have "file_deleted (host_zap ?z None False) (fst (globalData (host_zap ?z None False)))
     (str ''/txData/txAdminZapConfig.json'') \<and>
     snd (globalData (host_zap ?z None False)) = Inr (exports_zap False False)"
    using w [of False, THEN conjunct2, THEN conjunct2, THEN conjunct1] by (simp add: exports_zap_def ok)
  moreover have "unlinkSync (str ''/txData/txAdminZapConfig.json'') \<in>
      set (fst (globalData (host_zap_readonly ?z None False)))"
    using r [of False, THEN conjunct1] by simp
  moreover have "snd (globalData (host_zap_readonly ?z None False)) = Inl (process_exit 109)"
    using r [of False, THEN conjunct2, THEN conjunct2, THEN conjunct2, THEN conjunct1]
    by (simp add: host_zap_readonly_facts)
  ultimately show ?thesis by (simp add: exports_zap_def)
qed

text \<open>
  C9, as the claim states it, fails: on a file system where the deletion throws, the ZAP
  file parses and validates and the dev environment is not enabled, yet the file is not
  deleted and the process ends with exit code 109; on the same host with the dev
  environment enabled, the environment is resolved.
\<close>

theorem zap_file_kept_when_unlink_throws:
  "zap_parse (host_zap_readonly (zapCfgData_with (customer_zap (str ''$2y$10$abc''))) None False)
       (str ''/txData/txAdminZapConfig.json'') False =
     Inr (convars_zap False (Some \<lparr>name = str ''zap'', password_hash = str ''$2y$10$abc''\<rparr>)) \<and>
   ENABLED (parseTxDevEnv (host_zap_readonly (zapCfgData_with (customer_zap (str ''$2y$10$abc''))) None False)) =
     False \<and>
   file_deleted (host_zap_readonly (zapCfgData_with (customer_zap (str ''$2y$10$abc''))) None False)
     (fst (globalData (host_zap_readonly (zapCfgData_with (customer_zap (str ''$2y$10$abc''))) None False)))
     (str ''/txData/txAdminZapConfig.json'') = False \<and>
   snd (globalData (host_zap_readonly (zapCfgData_with (customer_zap (str ''$2y$10$abc''))) None False)) =
     Inl (process_exit 109) \<and>
   snd (globalData (host_zap_readonly (zapCfgData_with (customer_zap (str ''$2y$10$abc''))) None True)) =
     Inr (exports_zap False True)"
proof -
  let ?z = "zapCfgData_with (customer_zap (str ''$2y$10$abc''))"
  let ?f = "str ''/txData/txAdminZapConfig.json''"
  have d: "dataPath txEnv_linux = str ''/txData''" "isWindows txEnv_linux = False"
    by (simp_all add: txEnv_linux_def)
  have ex: "fs_existsSync (host_zap_readonly ?z None b) (zapCfgFile (host_zap_readonly ?z None b) (str ''/txData''))"
    for b
    by (simp add: host_zap_readonly_facts)
  have zp: "zap_parse (host_zap_readonly ?z None b) ?f False =
      Inr (convars_zap False (Some \<lparr>name = str ''zap'', password_hash = str ''$2y$10$abc''\<rparr>))" for b
    by (simp add: host_zap_readonly_facts zap_parse_valid)
  have g: "snd (globalData (host_zap_readonly ?z None b)) =
      (case snd (zap_unlink (host_zap_readonly ?z None b) ?f b
                   (convars_zap False (Some \<lparr>name = str ''zap'', password_hash = str ''$2y$10$abc''\<rparr>))) of
         Inl x \<Rightarrow> Inl x
       | Inr cv \<Rightarrow> Inr \<lparr>txDevEnv = \<lparr>ENABLED = b, SRC_PATH = (if b then Some (str ''/src'') else None),
             VITE_URL = (if b then Some (str ''http://localhost:40122'') else None), VERBOSE = False\<rparr>,
           txEnv = txEnv_linux, convars = cv\<rparr>)" for b
    unfolding globalData_convars [OF host_zap_readonly_facts(1) txDevEnv_host_zap_readonly] d
      resolve_convars_zap [OF ex] host_zap_readonly_facts(3)
    by (simp add: snd_run_bind host_zap_readonly_facts(6) zp)
  have "snd (globalData (host_zap_readonly ?z None False)) = Inl (process_exit 109)"
    unfolding g by (simp add: zap_unlink_def snd_run_bind host_zap_readonly_facts(7) zap_catch_def)
  moreover have "snd (globalData (host_zap_readonly ?z None True)) = Inr (exports_zap False True)"
    unfolding g by (simp add: zap_unlink_def exports_zap_def)
  moreover have "ENABLED (parseTxDevEnv (host_zap_readonly ?z None False)) = False"
    by (simp add: host_zap_readonly_def host_zap_def)
  moreover have "file_deleted (host_zap_readonly ?z None False)
      (fst (globalData (host_zap_readonly ?z None False))) ?f = False"
    by (simp add: file_deleted_def host_zap_readonly_facts(7))
  ultimately show ?thesis using zp by simp
qed

end
